theory Spec2Isabelle
  imports Main "HOL-Library.Sublist"
begin

text \<open>
  The gateway forwards insert, batch-insert, select, update, batch-update, delete and
  aggregate requests to a data engine. The repository holds two implementations of the
  controller and of the service behind it: the controller of
  controllers/api/goDataEngine.controller.js with the service of part_000 (also in
  services/goDataEngine.service.js, lines 1-1112), and the controller of part_001 with the
  service of services/goDataEngine.service.js, lines 1114-1705. Both are embedded; the
  names of the second carry a \<open>2\<close>. A handler is a function of the request body and of
  the downstream engine's behaviour, and returns its response together with the list of
  downstream calls it made.
\<close>

section \<open>JavaScript values\<close>

text \<open>
  Request bodies, payloads and downstream responses are JSON documents handled as plain
  JavaScript values. An object is its list of own properties in enumeration order; a
  destructured or looked-up property that is missing reads as \<open>undefined\<close>.
  Numbers are restricted to integers: every test the gateway makes on a number is a
  truthiness test, which a fractional number passes like any other non-zero number.
  Strings are byte lists; the accented letters of the Portuguese messages are written as
  their UTF-8 bytes.
\<close>

datatype jsval =
    JUndef
  | JNull
  | JBool bool
  | JNum int
  | JStr string
  | JArr "jsval list"
  | JObj "(string \<times> jsval) list"

text \<open>\<open>!!v\<close>\<close>

fun truthy :: "jsval \<Rightarrow> bool" where
  "truthy JUndef = False"
| "truthy JNull = False"
| "truthy (JBool b) = b"
| "truthy (JNum n) = (n \<noteq> 0)"
| "truthy (JStr s) = (s \<noteq> [])"
| "truthy (JArr xs) = True"
| "truthy (JObj kvs) = True"

text \<open>\<open>v == null\<close>\<close>

fun nullish :: "jsval \<Rightarrow> bool" where
  "nullish JUndef = True"
| "nullish JNull = True"
| "nullish v = False"

text \<open>\<open>a ?? b\<close> and \<open>a || b\<close>\<close>

definition coalesce :: "jsval \<Rightarrow> jsval \<Rightarrow> jsval" where
  "coalesce a b = (if nullish a then b else a)"

definition js_or :: "jsval \<Rightarrow> jsval \<Rightarrow> jsval" where
  "js_or a b = (if truthy a then a else b)"

text \<open>\<open>typeof v === "object"\<close>\<close>

fun typeof_object :: "jsval \<Rightarrow> bool" where
  "typeof_object JNull = True"
| "typeof_object (JArr xs) = True"
| "typeof_object (JObj kvs) = True"
| "typeof_object v = False"

text \<open>\<open>Array.isArray(v)\<close>\<close>

fun isArray :: "jsval \<Rightarrow> bool" where
  "isArray (JArr xs) = True"
| "isArray v = False"

text \<open>\<open>const { k } = body\<close> on a parsed JSON object.\<close>

definition field :: "(string \<times> jsval) list \<Rightarrow> string \<Rightarrow> jsval" where
  "field kvs k = (case map_of kvs k of None \<Rightarrow> JUndef | Some v \<Rightarrow> v)"

text \<open>
  Writing a property in an object literal after a spread: an existing key keeps its place
  and takes the new value, a new key is appended.
\<close>

fun set_prop :: "string \<Rightarrow> jsval \<Rightarrow> (string \<times> jsval) list \<Rightarrow> (string \<times> jsval) list" where
  "set_prop k v [] = [(k, v)]"
| "set_prop k v (p # ps) = (if fst p = k then (k, v) # ps else p # set_prop k v ps)"

text \<open>Decimal digits of an array index or an integer.\<close>

fun string_of_nat :: "nat \<Rightarrow> string" where
  "string_of_nat n =
     (if n < 10 then [char_of (48 + n)]
      else string_of_nat (n div 10) @ [char_of (48 + n mod 10)])"

declare string_of_nat.simps [simp del]

definition string_of_int :: "int \<Rightarrow> string" where
  "string_of_int i = (if i < 0 then CHR ''-'' # string_of_nat (nat (- i)) else string_of_nat (nat i))"

text \<open>\<open>xs.join(sep)\<close> on a list of strings.\<close>

fun join :: "string \<Rightarrow> string list \<Rightarrow> string" where
  "join sep [] = []"
| "join sep [x] = x"
| "join sep (x # y # ys) = x @ sep @ join sep (y # ys)"

text \<open>
  \<open>String(v)\<close>, which \<open>new Error(v)\<close> applies to its argument: a plain object
  becomes the text \<open>[object Object]\<close>, an array joins its elements with commas, with
  \<open>null\<close> and \<open>undefined\<close> elements rendered empty.
\<close>

fun js_to_string :: "jsval \<Rightarrow> string" where
  "js_to_string JUndef = ''undefined''"
| "js_to_string JNull = ''null''"
| "js_to_string (JBool b) = (if b then ''true'' else ''false'')"
| "js_to_string (JNum n) = string_of_int n"
| "js_to_string (JStr s) = s"
| "js_to_string (JArr xs) = join '','' (map (\<lambda>x. if nullish x then [] else js_to_string x) xs)"
| "js_to_string (JObj kvs) = ''[object Object]''"

text \<open>The own enumerable properties copied by \<open>{...v}\<close> and listed by \<open>Object.entries(v)\<close>.\<close>

fun own_entries :: "jsval \<Rightarrow> (string \<times> jsval) list" where
  "own_entries (JObj kvs) = kvs"
| "own_entries (JArr xs) = zip (map string_of_nat [0..<length xs]) xs"
| "own_entries (JStr s) = zip (map string_of_nat [0..<length s]) (map (\<lambda>c. JStr [c]) s)"
| "own_entries v = []"

datatype js_error = Error string | TypeError string

fun message_of :: "js_error \<Rightarrow> string" where
  "message_of (Error m) = m"
| "message_of (TypeError m) = m"

text \<open>
  \<open>v.k\<close> for a key \<open>k\<close> that no built-in prototype defines (the gateway reads
  \<open>id_instancia\<close>, \<open>data\<close> and \<open>error\<close> this way): a TypeError on \<open>null\<close> and
  \<open>undefined\<close>, the property of an object, \<open>undefined\<close> on everything else.
\<close>

fun get_prop :: "jsval \<Rightarrow> string \<Rightarrow> js_error + jsval" where
  "get_prop JUndef k = Inl (TypeError (''Cannot read properties of undefined (reading '' @ [CHR 0x27] @ k @ [CHR 0x27] @ '')''))"
| "get_prop JNull k = Inl (TypeError (''Cannot read properties of null (reading '' @ [CHR 0x27] @ k @ [CHR 0x27] @ '')''))"
| "get_prop (JObj kvs) k = Inr (field kvs k)"
| "get_prop v k = Inr JUndef"

text \<open>\<open>xs.map(f)\<close> where \<open>f\<close> may throw: the first exception ends the loop.\<close>

fun mapE :: "('a \<Rightarrow> js_error + 'b) \<Rightarrow> 'a list \<Rightarrow> js_error + 'b list" where
  "mapE f [] = Inr []"
| "mapE f (x # xs) =
     (case f x of
        Inl e \<Rightarrow> Inl e
      | Inr y \<Rightarrow> (case mapE f xs of Inl e \<Rightarrow> Inl e | Inr ys \<Rightarrow> Inr (y # ys)))"

text \<open>The accented letters of the messages, in UTF-8.\<close>

definition a_tilde :: string where "a_tilde = [CHR 0xC3, CHR 0xA3]"
definition a_acute :: string where "a_acute = [CHR 0xC3, CHR 0xA1]"
definition e_acute :: string where "e_acute = [CHR 0xC3, CHR 0xA9]"
definition o_acute :: string where "o_acute = [CHR 0xC3, CHR 0xB3]"
definition c_cedil :: string where "c_cedil = [CHR 0xC3, CHR 0xA7]"

section \<open>The forwarder\<close>

text \<open>
  The downstream engine and the network are a parameter: for an endpoint and a payload,
  \<open>axios.post\<close> resolves with the response body, or rejects with an error that carries
  the body of a non-2xx response and a message, or rejects with no response at all
  (time-out, refused connection) and only the transport's message. Every call made is
  recorded.
\<close>

datatype axios_outcome =
    AxiosOk jsval
  | AxiosHttpError jsval string
  | AxiosNoResponse string

type_synonym downstream = "string \<Rightarrow> jsval \<Rightarrow> axios_outcome"
type_synonym call = "string \<times> jsval"
type_synonym 'a io = "(js_error + 'a) \<times> call list"

text \<open>\<open>requestToGo\<close> of goDataEngine.service.js, lines 37-51.\<close>

definition requestToGo :: "downstream \<Rightarrow> string \<Rightarrow> jsval \<Rightarrow> jsval io" where
  "requestToGo go endpoint payload =
     ((case go endpoint payload of
         AxiosOk d \<Rightarrow> Inr d
       | AxiosHttpError d m \<Rightarrow> Inl (Error (js_to_string (js_or d (JStr m))))
       | AxiosNoResponse m \<Rightarrow> Inl (Error (js_to_string (js_or JUndef (JStr m))))),
      [(endpoint, payload)])"


text \<open>
  \<open>requestToGo\<close> of lines 529-549 differs in one point: an error detail whose
  \<open>typeof\<close> is \<open>"object"\<close> goes through \<open>JSON.stringify\<close>, a parameter here.
\<close>

definition requestToGo_json ::
    "(jsval \<Rightarrow> string) \<Rightarrow> downstream \<Rightarrow> string \<Rightarrow> jsval \<Rightarrow> jsval io" where
  "requestToGo_json stringify go endpoint payload =
     ((case go endpoint payload of
         AxiosOk d \<Rightarrow> Inr d
       | AxiosHttpError d m \<Rightarrow>
           (let errorDetail = js_or d (JStr m)
            in Inl (Error (if typeof_object errorDetail then stringify errorDetail
                           else js_to_string errorDetail)))
       | AxiosNoResponse m \<Rightarrow>
           (let errorDetail = js_or JUndef (JStr m)
            in Inl (Error (if typeof_object errorDetail then stringify errorDetail
                           else js_to_string errorDetail)))),
      [(endpoint, payload)])"

section \<open>The service (part_000; goDataEngine.service.js, lines 504-1112)\<close>

text \<open>
  The functions below are the same text in part_000, which has the \<open>requestToGo\<close> of
  lines 37-51, and at lines 504-1112 of goDataEngine.service.js, which has the one with
  \<open>JSON.stringify\<close>. Line numbers are those of goDataEngine.service.js.
\<close>

text \<open>A default parameter value \<open>p = d\<close> replaces an argument that is \<open>undefined\<close>.\<close>

definition default_param :: "jsval \<Rightarrow> jsval \<Rightarrow> jsval" where
  "default_param v d = (if v = JUndef then d else v)"

definition obrigatorio :: string where
  "obrigatorio = e_acute @ '' obrigat'' @ o_acute @ ''rio''"

definition obrigatoria :: string where
  "obrigatoria = e_acute @ '' obrigat'' @ o_acute @ ''ria''"

definition sao_obrigatorios :: string where
  "sao_obrigatorios = ''s'' @ a_tilde @ ''o obrigat'' @ o_acute @ ''rios''"

definition nao_pode_ser_vazio :: string where
  "nao_pode_ser_vazio = ''n'' @ a_tilde @ ''o pode ser vazio''"

text \<open>\<open>insert\<close>, lines 767-792: the payload is built first, then checked field by field.\<close>

definition svc_insert :: "downstream \<Rightarrow> jsval \<Rightarrow> jsval \<Rightarrow> jsval \<Rightarrow> jsval \<Rightarrow> jsval io" where
  "svc_insert go project_id id_instancia table data =
     (let p = coalesce project_id JNull;
          i = coalesce id_instancia JNull;
          t = coalesce table (JStr []);
          d = coalesce data (JObj [])
      in if \<not> truthy p then (Inl (Error (''project_id '' @ obrigatorio)), [])
         else if \<not> truthy i then (Inl (Error (''id_instancia '' @ obrigatorio)), [])
         else if \<not> truthy t then (Inl (Error (''table '' @ obrigatoria)), [])
         else if length (own_entries d) = 0 then (Inl (Error (''data '' @ nao_pode_ser_vazio)), [])
         else requestToGo go ''/data/insert''
                (JObj [(''project_id'', p), (''id_instancia'', i), (''table'', t), (''data'', d)]))"

text \<open>
  The arrow function of \<open>batchInsert\<close>, lines 841-844:
  \<open>row => ({ ...row, id_instancia: row.id_instancia ?? id_instancia })\<close>.
\<close>

definition merge_row :: "jsval \<Rightarrow> jsval \<Rightarrow> js_error + jsval" where
  "merge_row id_instancia row =
     (case get_prop row ''id_instancia'' of
        Inl e \<Rightarrow> Inl e
      | Inr own \<Rightarrow> Inr (JObj (set_prop ''id_instancia'' (coalesce own id_instancia) (own_entries row))))"

text \<open>\<open>batchInsert\<close>, lines 834-862.\<close>

definition svc_batchInsert :: "downstream \<Rightarrow> jsval \<Rightarrow> jsval \<Rightarrow> jsval \<Rightarrow> jsval \<Rightarrow> jsval io" where
  "svc_batchInsert go project_id id_instancia table data =
     (case (case data of JArr rows \<Rightarrow> mapE (merge_row id_instancia) rows | _ \<Rightarrow> Inr []) of
        Inl e \<Rightarrow> (Inl e, [])
      | Inr rows' \<Rightarrow>
          (let p = coalesce project_id JNull;
               i = coalesce id_instancia JNull;
               t = coalesce table (JStr [])
           in if \<not> truthy p then (Inl (Error (''project_id '' @ obrigatorio)), [])
              else if \<not> truthy i then (Inl (Error (''id_instancia '' @ obrigatorio)), [])
              else if \<not> truthy t then (Inl (Error (''table '' @ obrigatoria)), [])
              else if length rows' = 0 then (Inl (Error (''data (array) '' @ nao_pode_ser_vazio)), [])
              else requestToGo go ''/data/batch-insert''
                     (JObj [(''project_id'', p), (''id_instancia'', i), (''table'', t),
                            (''data'', JArr rows')])))"

text \<open>
  \<open>advancedSelect\<close>, lines 603-644. \<open>Number\<close> is the built-in conversion, a parameter
  here.
\<close>

definition svc_advancedSelect ::
    "downstream \<Rightarrow> (jsval \<Rightarrow> jsval) \<Rightarrow> (string \<times> jsval) list \<Rightarrow> jsval io" where
  "svc_advancedSelect go Number options =
     (let project_id = field options ''project_id'';
          id_instancia = field options ''id_instancia'';
          table = field options ''table'';
          select = field options ''select'';
          joins = field options ''joins'';
          where = field options ''where''
      in if \<not> truthy project_id \<or> \<not> truthy id_instancia \<or> \<not> truthy table
         then (Inl (Error (''project_id, id_instancia e table '' @ sao_obrigatorios)), [])
         else requestToGo go ''/data/select''
                (JObj [(''project_id'', Number project_id),
                       (''id_instancia'', Number id_instancia),
                       (''table'', table),
                       (''alias'', js_or (field options ''alias'') (JStr [])),
                       (''select'', if isArray select then select else JArr []),
                       (''joins'', if isArray joins then joins else JArr []),
                       (''where'', if truthy where \<and> typeof_object where then where else JObj []),
                       (''where_raw'', js_or (field options ''where_raw'') (JStr [])),
                       (''group_by'', js_or (field options ''group_by'') (JStr [])),
                       (''having'', js_or (field options ''having'') (JStr [])),
                       (''order_by'', js_or (field options ''order_by'') (JStr [])),
                       (''limit'', js_or (field options ''limit'') (JNum 0)),
                       (''offset'', js_or (field options ''offset'') (JNum 0))]))"

text \<open>\<open>update\<close>, lines 904-920.\<close>

definition svc_update ::
    "downstream \<Rightarrow> jsval \<Rightarrow> jsval \<Rightarrow> jsval \<Rightarrow> jsval \<Rightarrow> jsval \<Rightarrow> jsval \<Rightarrow> jsval io" where
  "svc_update go project_id id_instancia table data where0 where_raw0 =
     (let where = default_param where0 (JObj []);
          where_raw = default_param where_raw0 JNull
      in if \<not> truthy project_id \<or> \<not> truthy id_instancia \<or> \<not> truthy table \<or> \<not> truthy data
         then (Inl (Error (''project_id, id_instancia, table e data '' @ sao_obrigatorios)), [])
         else requestToGo go ''/data/update''
                (JObj [(''project_id'', project_id), (''id_instancia'', id_instancia),
                       (''table'', table), (''data'', data),
                       (''where'', js_or where (JObj [])),
                       (''where_raw'', js_or where_raw (JStr []))]))"

text \<open>\<open>batchUpdate\<close>, lines 962-976.\<close>

definition svc_batchUpdate :: "downstream \<Rightarrow> jsval \<Rightarrow> jsval \<Rightarrow> jsval \<Rightarrow> jsval \<Rightarrow> jsval io" where
  "svc_batchUpdate go project_id id_instancia table updates =
     (if \<not> truthy project_id \<or> \<not> truthy id_instancia \<or> \<not> truthy table \<or> \<not> isArray updates
      then (Inl (Error (''project_id, id_instancia, table e updates (array) '' @ sao_obrigatorios)), [])
      else requestToGo go ''/data/batch-update''
             (JObj [(''project_id'', project_id), (''id_instancia'', id_instancia),
                    (''table'', table), (''updates'', js_or updates (JArr []))]))"

text \<open>\<open>deleteRecords\<close>, lines 1026-1039.\<close>

definition svc_deleteRecords ::
    "downstream \<Rightarrow> jsval \<Rightarrow> jsval \<Rightarrow> jsval \<Rightarrow> jsval \<Rightarrow> jsval \<Rightarrow> jsval \<Rightarrow> jsval io" where
  "svc_deleteRecords go project_id id_instancia table where0 where_raw0 mode0 =
     (let where = default_param where0 (JObj []);
          where_raw = default_param where_raw0 JNull;
          mode = default_param mode0 (JStr ''hard'')
      in if \<not> truthy project_id \<or> \<not> truthy id_instancia \<or> \<not> truthy table
         then (Inl (Error (''project_id, id_instancia e table '' @ sao_obrigatorios)), [])
         else requestToGo go ''/data/delete''
                (JObj [(''project_id'', project_id), (''id_instancia'', id_instancia),
                       (''table'', table), (''where'', where), (''where_raw'', where_raw),
                       (''mode'', mode)]))"

text \<open>\<open>aggregate\<close>, lines 1073-1086.\<close>

definition svc_aggregate ::
    "downstream \<Rightarrow> jsval \<Rightarrow> jsval \<Rightarrow> jsval \<Rightarrow> jsval \<Rightarrow> jsval \<Rightarrow> jsval \<Rightarrow> jsval io" where
  "svc_aggregate go project_id id_instancia table operation column0 where0 =
     (let column = default_param column0 JNull;
          where = default_param where0 (JObj [])
      in if \<not> truthy project_id \<or> \<not> truthy id_instancia \<or> \<not> truthy table \<or> \<not> truthy operation
         then (Inl (Error (''project_id, id_instancia, table e operation '' @ sao_obrigatorios)), [])
         else requestToGo go ''/data/aggregate''
                (JObj [(''project_id'', project_id), (''id_instancia'', id_instancia),
                       (''table'', table), (''operation'', operation), (''column'', column),
                       (''where'', where)]))"


section \<open>The controller (controllers/api/goDataEngine.controller.js)\<close>

record response =
  status :: nat
  json :: jsval

text \<open>\<open>return res.status(400).json({ success: false, message })\<close> before any service call.\<close>

definition bad_request :: "string \<Rightarrow> response \<times> call list" where
  "bad_request msg =
     (\<lparr>status = 400, json = JObj [(''success'', JBool False), (''message'', JStr msg)]\<rparr>, [])"

text \<open>
  The two ways out of a handler's \<open>try\<close> block: \<open>res.json\<close> with the service's result
  (status 200), or the \<open>catch\<close> branch with status 500 and \<open>err.message\<close>.
\<close>

definition reply :: "string \<Rightarrow> string \<Rightarrow> jsval io \<Rightarrow> response \<times> call list" where
  "reply ok_msg err_msg r =
     (case r of
        (Inr result, calls) \<Rightarrow>
          (\<lparr>status = 200,
            json = JObj [(''success'', JBool True), (''message'', JStr ok_msg), (''data'', result)]\<rparr>,
           calls)
      | (Inl err, calls) \<Rightarrow>
          (\<lparr>status = 500,
            json = JObj [(''success'', JBool False), (''message'', JStr err_msg),
                         (''error'', JStr (message_of err))]\<rparr>,
           calls))"

definition insertRecord :: "downstream \<Rightarrow> (string \<times> jsval) list \<Rightarrow> response \<times> call list" where
  "insertRecord go body =
     (let project_id = field body ''project_id'';
          id_instancia = field body ''id_instancia'';
          table = field body ''table'';
          data = field body ''data''
      in if \<not> truthy project_id \<or> \<not> truthy id_instancia \<or> \<not> truthy table \<or> \<not> truthy data
         then bad_request (''project_id, id_instancia, table e data '' @ sao_obrigatorios)
         else reply ''Registro inserido com sucesso'' ''Erro ao inserir registro''
                (svc_insert go project_id id_instancia table data))"

definition batchInsert :: "downstream \<Rightarrow> (string \<times> jsval) list \<Rightarrow> response \<times> call list" where
  "batchInsert go body =
     (let project_id = field body ''project_id'';
          id_instancia = field body ''id_instancia'';
          table = field body ''table'';
          data = field body ''data''
      in if \<not> truthy project_id \<or> \<not> truthy id_instancia \<or> \<not> truthy table \<or> \<not> isArray data
         then bad_request (''project_id, id_instancia, table e data (array) '' @ sao_obrigatorios)
         else reply ''Batch insert realizado com sucesso'' ''Erro ao inserir registros em lote''
                (svc_batchInsert go project_id id_instancia table data))"

definition advancedSelect ::
    "downstream \<Rightarrow> (jsval \<Rightarrow> jsval) \<Rightarrow> (string \<times> jsval) list \<Rightarrow> response \<times> call list" where
  "advancedSelect go Number options =
     (if \<not> truthy (field options ''project_id'') \<or> \<not> truthy (field options ''id_instancia'')
         \<or> \<not> truthy (field options ''table'')
      then bad_request (''project_id, id_instancia e table '' @ sao_obrigatorios)
      else (case svc_advancedSelect go Number options of
              (Inr result, calls) \<Rightarrow>
                (\<lparr>status = 200,
                  json = JObj [(''success'', JBool True),
                               (''message'', JStr ''Consulta realizada com sucesso''),
                               (''data'', result),
                               (''count'', (case result of JArr xs \<Rightarrow> JNum (int (length xs))
                                                        | _ \<Rightarrow> JNum 0))]\<rparr>,
                 calls)
            | (Inl err, calls) \<Rightarrow>
                (\<lparr>status = 500,
                  json = JObj [(''success'', JBool False),
                               (''message'', JStr (''Erro ao executar consulta avan'' @ c_cedil @ ''ada'')),
                               (''error'', JStr (message_of err))]\<rparr>,
                 calls)))"

definition updateRecord :: "downstream \<Rightarrow> (string \<times> jsval) list \<Rightarrow> response \<times> call list" where
  "updateRecord go body =
     (let project_id = field body ''project_id'';
          id_instancia = field body ''id_instancia'';
          table = field body ''table'';
          data = field body ''data''
      in if \<not> truthy project_id \<or> \<not> truthy id_instancia \<or> \<not> truthy table \<or> \<not> truthy data
         then bad_request (''project_id, id_instancia, table e data '' @ sao_obrigatorios)
         else reply ''Registro atualizado com sucesso'' ''Erro ao atualizar registro''
                (svc_update go project_id id_instancia table data
                   (js_or (field body ''where'') (JObj []))
                   (js_or (field body ''where_raw'') JNull)))"

definition batchUpdate :: "downstream \<Rightarrow> (string \<times> jsval) list \<Rightarrow> response \<times> call list" where
  "batchUpdate go body =
     (let project_id = field body ''project_id'';
          id_instancia = field body ''id_instancia'';
          table = field body ''table'';
          updates = field body ''updates''
      in if \<not> truthy project_id \<or> \<not> truthy id_instancia \<or> \<not> truthy table \<or> \<not> isArray updates
         then bad_request (''project_id, id_instancia, table e updates (array) '' @ sao_obrigatorios)
         else reply ''Batch update realizado com sucesso'' ''Erro ao atualizar registros em lote''
                (svc_batchUpdate go project_id id_instancia table updates))"

definition deleteRecord :: "downstream \<Rightarrow> (string \<times> jsval) list \<Rightarrow> response \<times> call list" where
  "deleteRecord go body =
     (let project_id = field body ''project_id'';
          id_instancia = field body ''id_instancia'';
          table = field body ''table''
      in if \<not> truthy project_id \<or> \<not> truthy id_instancia \<or> \<not> truthy table
         then bad_request (''project_id, id_instancia e table '' @ sao_obrigatorios)
         else reply ''Registro(s) deletado(s) com sucesso'' ''Erro ao deletar registro(s)''
                (svc_deleteRecords go project_id id_instancia table
                   (js_or (field body ''where'') (JObj []))
                   (js_or (field body ''where_raw'') JNull)
                   (js_or (field body ''mode'') (JStr ''hard''))))"

definition aggregate :: "downstream \<Rightarrow> (string \<times> jsval) list \<Rightarrow> response \<times> call list" where
  "aggregate go body =
     (let project_id = field body ''project_id'';
          id_instancia = field body ''id_instancia'';
          table = field body ''table'';
          operation = field body ''operation''
      in if \<not> truthy project_id \<or> \<not> truthy id_instancia \<or> \<not> truthy table \<or> \<not> truthy operation
         then bad_request (''project_id, id_instancia, table e operation '' @ sao_obrigatorios)
         else reply (''Agrega'' @ c_cedil @ a_tilde @ ''o realizada com sucesso'')
                    (''Erro ao executar agrega'' @ c_cedil @ a_tilde @ ''o'')
                (svc_aggregate go project_id id_instancia table operation
                   (js_or (field body ''column'') JNull)
                   (js_or (field body ''where'') (JObj []))))"

section \<open>The API-key middleware and the router\<close>

text \<open>\<open>s.split(",")\<close>\<close>

fun js_split :: "char \<Rightarrow> string \<Rightarrow> string list" where
  "js_split sep [] = [[]]"
| "js_split sep (c # cs) =
     (if c = sep then [] # js_split sep cs
      else (case js_split sep cs of [] \<Rightarrow> [[c]] | w # ws \<Rightarrow> (c # w) # ws))"

text \<open>
  \<open>validateApiKey\<close>: \<open>api_keys\<close> is \<open>process.env.API_KEYS\<close> and \<open>key\<close> the
  \<open>x-api-key\<close> header, each absent or a string; \<open>next\<close> is what the handler behind
  the middleware does.
\<close>

definition validKeys :: "string option \<Rightarrow> string list" where
  "validKeys api_keys =
     (case api_keys of None \<Rightarrow> [] | Some s \<Rightarrow> if s \<noteq> [] then js_split CHR '','' s else [])"

definition validateApiKey ::
    "string option \<Rightarrow> string option \<Rightarrow> response \<times> call list \<Rightarrow> response \<times> call list" where
  "validateApiKey api_keys key next =
     (if (case key of None \<Rightarrow> True | Some k \<Rightarrow> k = [] \<or> k \<notin> set (validKeys api_keys))
      then (\<lparr>status = 401,
             json = JObj [(''success'', JBool False),
                          (''message'', JStr (''Chave de API inv'' @ a_acute @ ''lida ou ausente''))]\<rparr>,
            [])
      else next)"

datatype operation = Insert | BatchInsert | Get | Update | BatchUpdate | Delete | Aggregate

text \<open>routes/api/index.js: the path of each \<open>router.post\<close> and its handler.\<close>

definition route :: "string \<Rightarrow> operation option" where
  "route path =
     (if path = ''/insert'' then Some Insert
      else if path = ''/batch-insert'' then Some BatchInsert
      else if path = ''/get'' then Some Get
      else if path = ''/update'' then Some Update
      else if path = ''/batch-update'' then Some BatchUpdate
      else if path = ''/delete'' then Some Delete
      else if path = ''/aggregate'' then Some Aggregate
      else None)"

fun handler ::
    "operation \<Rightarrow> downstream \<Rightarrow> (jsval \<Rightarrow> jsval) \<Rightarrow> (string \<times> jsval) list \<Rightarrow> response \<times> call list" where
  "handler Insert go Number body = insertRecord go body"
| "handler BatchInsert go Number body = batchInsert go body"
| "handler Get go Number body = advancedSelect go Number body"
| "handler Update go Number body = updateRecord go body"
| "handler BatchUpdate go Number body = batchUpdate go body"
| "handler Delete go Number body = deleteRecord go body"
| "handler Aggregate go Number body = aggregate go body"

definition router ::
    "string option \<Rightarrow> string option \<Rightarrow> downstream \<Rightarrow> (jsval \<Rightarrow> jsval) \<Rightarrow> string
       \<Rightarrow> (string \<times> jsval) list \<Rightarrow> response \<times> call list" where
  "router api_keys key go Number path body =
     (case route path of
        None \<Rightarrow> (\<lparr>status = 404, json = JUndef\<rparr>, [])
      | Some op \<Rightarrow> validateApiKey api_keys key (handler op go Number body))"


section \<open>The second implementation (service lines 1114-1705, controller of part_001)\<close>

text \<open>\<open>v?.k\<close> for a key that no built-in prototype defines.\<close>

fun opt_prop :: "jsval \<Rightarrow> string \<Rightarrow> jsval" where
  "opt_prop (JObj kvs) k = field kvs k"
| "opt_prop v k = JUndef"

text \<open>\<open>requestToGo\<close>, lines 1155-1169: the error is \<open>err.response?.data?.error || err.message\<close>.\<close>

definition requestToGo2 :: "downstream \<Rightarrow> string \<Rightarrow> jsval \<Rightarrow> jsval io" where
  "requestToGo2 go endpoint payload =
     ((case go endpoint payload of
         AxiosOk d \<Rightarrow> Inr d
       | AxiosHttpError d m \<Rightarrow> Inl (Error (js_to_string (js_or (opt_prop d ''error'') (JStr m))))
       | AxiosNoResponse m \<Rightarrow> Inl (Error (js_to_string (js_or JUndef (JStr m))))),
      [(endpoint, payload)])"

text \<open>\<open>Object.entries(v).map(([key, value]) => ({ name: key, value }))\<close>\<close>

definition to_columns :: "jsval \<Rightarrow> js_error + jsval" where
  "to_columns v =
     (if nullish v then Inl (TypeError ''Cannot convert undefined or null to object'')
      else Inr (JArr (map (\<lambda>(k, x). JObj [(''name'', JStr k), (''value'', x)]) (own_entries v))))"

text \<open>\<open>insert\<close>, lines 1384-1406.\<close>

definition svc2_insert :: "downstream \<Rightarrow> jsval \<Rightarrow> jsval \<Rightarrow> jsval \<Rightarrow> jsval \<Rightarrow> jsval io" where
  "svc2_insert go project_id id_instancia table data =
     (if \<not> truthy project_id then (Inl (Error (''project_id '' @ obrigatorio)), [])
      else if \<not> truthy id_instancia then (Inl (Error (''id_instancia '' @ obrigatorio)), [])
      else if \<not> truthy table then (Inl (Error (''table '' @ obrigatoria)), [])
      else if \<not> truthy data \<or> length (own_entries data) = 0
        then (Inl (Error (''data '' @ nao_pode_ser_vazio)), [])
      else (case to_columns data of
              Inl e \<Rightarrow> (Inl e, [])
            | Inr columns \<Rightarrow>
                requestToGo2 go ''/data/insert''
                  (JObj [(''project_id'', project_id), (''id_instancia'', id_instancia),
                         (''table'', table), (''columns'', columns)])))"

text \<open>\<open>batchInsert\<close>, lines 1426-1450.\<close>

definition svc2_batchInsert :: "downstream \<Rightarrow> jsval \<Rightarrow> jsval \<Rightarrow> jsval \<Rightarrow> jsval \<Rightarrow> jsval io" where
  "svc2_batchInsert go project_id id_instancia table data =
     (if \<not> truthy project_id then (Inl (Error (''project_id '' @ obrigatorio)), [])
      else if \<not> truthy id_instancia then (Inl (Error (''id_instancia '' @ obrigatoria)), [])
      else if \<not> truthy table then (Inl (Error (''table '' @ obrigatoria)), [])
      else (case data of
              JArr (r # rs) \<Rightarrow>
                (case mapE to_columns (r # rs) of
                   Inl e \<Rightarrow> (Inl e, [])
                 | Inr rows \<Rightarrow>
                     requestToGo2 go ''/data/batch-insert''
                       (JObj [(''project_id'', project_id), (''id_instancia'', id_instancia),
                              (''table'', table), (''rows'', JArr rows)]))
            | _ \<Rightarrow> (Inl (Error (''data deve ser um array n'' @ a_tilde @ ''o vazio'')), [])))"

text \<open>\<open>advancedSelect\<close>, lines 1229-1267.\<close>

definition svc2_advancedSelect ::
    "downstream \<Rightarrow> (jsval \<Rightarrow> jsval) \<Rightarrow> (string \<times> jsval) list \<Rightarrow> jsval io" where
  "svc2_advancedSelect go Number options =
     (let project_id = field options ''project_id'';
          id_instancia = field options ''id_instancia'';
          table = field options ''table'';
          select = field options ''select'';
          joins = field options ''joins'';
          where = field options ''where''
      in if \<not> truthy project_id \<or> \<not> truthy id_instancia \<or> \<not> truthy table
         then (Inl (Error (''project_id, id_instancia e table '' @ sao_obrigatorios)), [])
         else requestToGo2 go ''/data/select''
                (JObj [(''project_id'', Number project_id),
                       (''id_instancia'', Number id_instancia),
                       (''table'', table),
                       (''alias'', js_or (field options ''alias'') (JStr [])),
                       (''select'', if isArray select then select else JArr []),
                       (''joins'', if isArray joins then joins else JArr []),
                       (''where'', if truthy where \<and> typeof_object where then where else JObj []),
                       (''where_raw'', js_or (field options ''where_raw'') (JStr [])),
                       (''group_by'', js_or (field options ''group_by'') (JStr [])),
                       (''having'', js_or (field options ''having'') (JStr [])),
                       (''order_by'', js_or (field options ''order_by'') (JStr [])),
                       (''limit'', js_or (field options ''limit'') (JNum 0)),
                       (''offset'', js_or (field options ''offset'') (JNum 0))]))"

text \<open>\<open>update\<close>, lines 1484-1506.\<close>

definition svc2_update ::
    "downstream \<Rightarrow> jsval \<Rightarrow> jsval \<Rightarrow> jsval \<Rightarrow> jsval \<Rightarrow> jsval \<Rightarrow> jsval \<Rightarrow> jsval io" where
  "svc2_update go project_id id_instancia table data where0 where_raw0 =
     (let where = default_param where0 (JObj []);
          where_raw = default_param where_raw0 JNull
      in if \<not> truthy project_id \<or> \<not> truthy id_instancia \<or> \<not> truthy table \<or> \<not> truthy data
         then (Inl (Error (''project_id, id_instancia, table e data '' @ sao_obrigatorios)), [])
         else requestToGo2 go ''/data/update''
                (JObj [(''project_id'', project_id), (''id_instancia'', id_instancia),
                       (''table'', table), (''data'', data),
                       (''where'', js_or where (JObj [])),
                       (''where_raw'', js_or where_raw (JStr []))]))"

text \<open>\<open>batchUpdate\<close>, lines 1528-1543.\<close>

definition svc2_batchUpdate :: "downstream \<Rightarrow> jsval \<Rightarrow> jsval \<Rightarrow> jsval \<Rightarrow> jsval \<Rightarrow> jsval io" where
  "svc2_batchUpdate go project_id id_instancia table updates =
     (if \<not> truthy project_id \<or> \<not> truthy id_instancia \<or> \<not> truthy table \<or> \<not> isArray updates
      then (Inl (Error (''project_id, id_instancia, table e updates (array) '' @ sao_obrigatorios)), [])
      else requestToGo2 go ''/data/batch-update''
             (JObj [(''project_id'', project_id), (''id_instancia'', id_instancia),
                    (''table'', table), (''updates'', js_or updates (JArr []))]))"

text \<open>\<open>deleteRecords\<close>, lines 1586-1606.\<close>

definition svc2_deleteRecords ::
    "downstream \<Rightarrow> jsval \<Rightarrow> jsval \<Rightarrow> jsval \<Rightarrow> jsval \<Rightarrow> jsval \<Rightarrow> jsval \<Rightarrow> jsval io" where
  "svc2_deleteRecords go project_id id_instancia table where0 where_raw0 mode0 =
     (let where = default_param where0 (JObj []);
          where_raw = default_param where_raw0 JNull;
          mode = default_param mode0 (JStr ''hard'')
      in if \<not> truthy project_id \<or> \<not> truthy id_instancia \<or> \<not> truthy table
         then (Inl (Error (''project_id, id_instancia e table '' @ sao_obrigatorios)), [])
         else requestToGo2 go ''/data/delete''
                (JObj [(''project_id'', project_id), (''id_instancia'', id_instancia),
                       (''table'', table), (''where'', where), (''where_raw'', where_raw),
                       (''mode'', mode)]))"

text \<open>\<open>aggregate\<close>, lines 1659-1681.\<close>

definition svc2_aggregate ::
    "downstream \<Rightarrow> jsval \<Rightarrow> jsval \<Rightarrow> jsval \<Rightarrow> jsval \<Rightarrow> jsval \<Rightarrow> jsval \<Rightarrow> jsval io" where
  "svc2_aggregate go project_id id_instancia table operation column0 where0 =
     (let column = default_param column0 JNull;
          where = default_param where0 (JObj [])
      in if \<not> truthy project_id \<or> \<not> truthy id_instancia \<or> \<not> truthy table \<or> \<not> truthy operation
         then (Inl (Error (''project_id, id_instancia, table e operation '' @ sao_obrigatorios)), [])
         else requestToGo2 go ''/data/aggregate''
                (JObj [(''project_id'', project_id), (''id_instancia'', id_instancia),
                       (''table'', table), (''operation'', operation), (''column'', column),
                       (''where'', where)]))"

text \<open>
  The controller of part_001. \<open>validateFields(res, body, requiredFields, context)\<close>
  answers through its first argument; an Express request object has no \<open>status\<close>
  method, so \<open>res.status(400)\<close> on it is a TypeError. The result is the exception
  thrown, the response sent, or \<open>null\<close>.
\<close>

datatype express_obj = Req | Res

definition validateFields ::
    "express_obj \<Rightarrow> (string \<times> jsval) list \<Rightarrow> string list \<Rightarrow> string \<Rightarrow> js_error + response option" where
  "validateFields res body requiredFields context =
     (let missing = filter (\<lambda>f. map_of body f = None \<or> nullish (field body f)) requiredFields
      in if length missing \<noteq> 0
         then (case res of
                 Res \<Rightarrow>
                   Inr (Some \<lparr>status = 400,
                              json = JObj [(''success'', JBool False),
                                           (''message'',
                                            JStr (''Campos obrigat'' @ o_acute @ ''rios ausentes para ''
                                                  @ context @ '': '' @ join '', '' missing))]\<rparr>)
               | Req \<Rightarrow> Inl (TypeError ''res.status is not a function''))
         else Inr None)"

definition handleError :: "string \<Rightarrow> js_error \<Rightarrow> response" where
  "handleError context err =
     \<lparr>status = 500,
      json = JObj [(''success'', JBool False), (''message'', JStr (''Erro ao '' @ context)),
                   (''error'', JStr (message_of err))]\<rparr>"

text \<open>
  A handler of this controller ends with a response or, when an exception leaves it
  outside its \<open>try\<close> block, with that exception and no response. Each handler opens
  with \<open>validateFields(req, req.body, ...)\<close>: the request object is the first argument.
  The two ways out of the \<open>try\<close> block are \<open>res.json\<close> with the service's result and
  \<open>handleError(res, context, err)\<close>.
\<close>

type_synonym outcome2 = "(js_error + response) \<times> call list"

definition reply2 :: "string \<Rightarrow> string \<Rightarrow> jsval io \<Rightarrow> outcome2" where
  "reply2 ok_msg context r =
     (case r of
        (Inr result, calls) \<Rightarrow>
          (Inr \<lparr>status = 200,
                json = JObj [(''success'', JBool True), (''message'', JStr ok_msg),
                             (''data'', result)]\<rparr>,
           calls)
      | (Inl err, calls) \<Rightarrow> (Inr (handleError context err), calls))"

text \<open>\<open>const validationError = validateFields(...); if (validationError) return validationError;\<close>\<close>

definition validated :: "js_error + response option \<Rightarrow> outcome2 \<Rightarrow> outcome2" where
  "validated validationError rest =
     (case validationError of
        Inl e \<Rightarrow> (Inl e, [])
      | Inr (Some sent) \<Rightarrow> (Inr sent, [])
      | Inr None \<Rightarrow> rest)"

definition insertRecord2 :: "downstream \<Rightarrow> (string \<times> jsval) list \<Rightarrow> outcome2" where
  "insertRecord2 go body =
     validated
       (validateFields Req body [''project_id'', ''id_instancia'', ''table'', ''data''] ''insert'')
       (reply2 ''Registro inserido com sucesso'' ''inserir registro''
          (svc2_insert go (field body ''project_id'') (field body ''id_instancia'')
             (field body ''table'') (field body ''data'')))"

definition batchInsert2 :: "downstream \<Rightarrow> (string \<times> jsval) list \<Rightarrow> outcome2" where
  "batchInsert2 go body =
     validated
       (validateFields Req body [''project_id'', ''id_instancia'', ''table'', ''data'']
          ''batch insert'')
       (if \<not> isArray (field body ''data'')
        then (Inr \<lparr>status = 400,
                   json = JObj [(''success'', JBool False),
                                (''message'', JStr ''data deve ser um array para batch insert'')]\<rparr>,
              [])
        else reply2 ''Batch insert realizado com sucesso'' ''inserir registros em lote''
               (svc2_batchInsert go (field body ''project_id'') (field body ''id_instancia'')
                  (field body ''table'') (field body ''data'')))"

definition advancedSelect2 ::
    "downstream \<Rightarrow> (jsval \<Rightarrow> jsval) \<Rightarrow> (string \<times> jsval) list \<Rightarrow> outcome2" where
  "advancedSelect2 go Number body =
     validated
       (validateFields Req body [''project_id'', ''id_instancia'', ''table'']
          (''consulta avan'' @ c_cedil @ ''ada''))
       (case svc2_advancedSelect go Number body of
          (Inr result, calls) \<Rightarrow>
            (case get_prop result ''data'' of
               Inl e \<Rightarrow> (Inr (handleError (''executar consulta avan'' @ c_cedil @ ''ada'') e), calls)
             | Inr rows \<Rightarrow>
                 (Inr \<lparr>status = 200,
                       json = JObj [(''success'', JBool True),
                                    (''message'', JStr ''Consulta realizada com sucesso''),
                                    (''data'', result),
                                    (''count'', (case rows of JArr xs \<Rightarrow> JNum (int (length xs))
                                                           | _ \<Rightarrow> JNum 0))]\<rparr>,
                  calls))
        | (Inl err, calls) \<Rightarrow>
            (Inr (handleError (''executar consulta avan'' @ c_cedil @ ''ada'') err), calls))"

definition updateRecord2 :: "downstream \<Rightarrow> (string \<times> jsval) list \<Rightarrow> outcome2" where
  "updateRecord2 go body =
     validated
       (validateFields Req body [''project_id'', ''id_instancia'', ''table'', ''data''] ''update'')
       (reply2 ''Registro atualizado com sucesso'' ''atualizar registro''
          (svc2_update go (field body ''project_id'') (field body ''id_instancia'')
             (field body ''table'') (field body ''data'')
             (js_or (field body ''where'') (JObj []))
             (js_or (field body ''where_raw'') JNull)))"

definition batchUpdate2 :: "downstream \<Rightarrow> (string \<times> jsval) list \<Rightarrow> outcome2" where
  "batchUpdate2 go body =
     validated
       (validateFields Req body [''project_id'', ''id_instancia'', ''table'', ''updates'']
          ''batch update'')
       (if \<not> isArray (field body ''updates'')
        then (Inr \<lparr>status = 400,
                   json = JObj [(''success'', JBool False),
                                (''message'', JStr ''updates deve ser um array para batch update'')]\<rparr>,
              [])
        else reply2 ''Batch update realizado com sucesso'' ''atualizar registros em lote''
               (svc2_batchUpdate go (field body ''project_id'') (field body ''id_instancia'')
                  (field body ''table'') (field body ''updates'')))"

definition deleteRecord2 :: "downstream \<Rightarrow> (string \<times> jsval) list \<Rightarrow> outcome2" where
  "deleteRecord2 go body =
     validated
       (validateFields Req body [''project_id'', ''id_instancia'', ''table''] ''delete'')
       (reply2 ''Registro(s) deletado(s) com sucesso'' ''deletar registro(s)''
          (svc2_deleteRecords go (field body ''project_id'') (field body ''id_instancia'')
             (field body ''table'')
             (js_or (field body ''where'') (JObj []))
             (js_or (field body ''where_raw'') JNull)
             (js_or (field body ''mode'') (JStr ''hard''))))"

definition aggregate2 :: "downstream \<Rightarrow> (string \<times> jsval) list \<Rightarrow> outcome2" where
  "aggregate2 go body =
     validated
       (validateFields Req body [''project_id'', ''id_instancia'', ''table'', ''operation'']
          ''aggregate'')
       (reply2 (''Agrega'' @ c_cedil @ a_tilde @ ''o realizada com sucesso'')
          (''executar agrega'' @ c_cedil @ a_tilde @ ''o'')
          (svc2_aggregate go (field body ''project_id'') (field body ''id_instancia'')
             (field body ''table'') (field body ''operation'')
             (js_or (field body ''column'') JNull)
             (js_or (field body ''where'') (JObj []))))"

fun handler2 ::
    "operation \<Rightarrow> downstream \<Rightarrow> (jsval \<Rightarrow> jsval) \<Rightarrow> (string \<times> jsval) list \<Rightarrow> outcome2" where
  "handler2 Insert go Number body = insertRecord2 go body"
| "handler2 BatchInsert go Number body = batchInsert2 go body"
| "handler2 Get go Number body = advancedSelect2 go Number body"
| "handler2 Update go Number body = updateRecord2 go body"
| "handler2 BatchUpdate go Number body = batchUpdate2 go body"
| "handler2 Delete go Number body = deleteRecord2 go body"
| "handler2 Aggregate go Number body = aggregate2 go body"

section \<open>The consumer's \<open>callGoEngine\<close> (goDataEngine.service.js, lines 221-260)\<close>

text \<open>
  \<open>{ project_id: PROJECT_ID, id_instancia: INSTANCE_ID, ...payload }\<close> is posted to the
  gateway. The \<open>try\<close> block returns \<open>result.data.data\<close> at once; the statements after
  that \<open>return\<close> are never reached. The \<open>catch\<close> block logs
  \<open>erroReal.error[1]\<close>, where \<open>erroReal\<close> is \<open>err.response?.data || err.message\<close>, and
  returns the empty list; the value read at index 1 is only logged, but reading it from
  \<open>undefined\<close> or \<open>null\<close> throws again, out of the function.
\<close>

definition catch_callGoEngine :: "jsval \<Rightarrow> js_error + jsval" where
  "catch_callGoEngine erroReal =
     (case get_prop erroReal ''error'' of
        Inl e \<Rightarrow> Inl e
      | Inr detail \<Rightarrow> (case get_prop detail ''1'' of Inl e \<Rightarrow> Inl e | Inr logged \<Rightarrow> Inr (JArr [])))"

definition callGoEngine :: "downstream \<Rightarrow> jsval \<Rightarrow> jsval \<Rightarrow> string \<Rightarrow> jsval \<Rightarrow> jsval io" where
  "callGoEngine gateway PROJECT_ID INSTANCE_ID endpoint payload =
     (let sent = JObj (foldl (\<lambda>acc (k, v). set_prop k v acc)
                         [(''project_id'', PROJECT_ID), (''id_instancia'', INSTANCE_ID)]
                         (own_entries payload))
      in ((case gateway (''/'' @ endpoint) sent of
             AxiosOk result \<Rightarrow>
               (case get_prop result ''data'' of
                  Inl e \<Rightarrow> catch_callGoEngine (js_or JUndef (JStr (message_of e)))
                | Inr d \<Rightarrow>
                    (case get_prop d ''data'' of
                       Inl e \<Rightarrow> catch_callGoEngine (js_or JUndef (JStr (message_of e)))
                     | Inr dd \<Rightarrow> Inr dd))
           | AxiosHttpError d m \<Rightarrow> catch_callGoEngine (js_or d (JStr m))
           | AxiosNoResponse m \<Rightarrow> catch_callGoEngine (js_or JUndef (JStr m))),
          [(''/'' @ endpoint, sent)]))"


section \<open>Vocabulary of the statements and sample inputs\<close>

text \<open>
  The fields each operation requires: the lists the part_001 controller passes to
  \<open>validateFields\<close>, which are also the fields the first controller tests.
\<close>

fun required_fields :: "operation \<Rightarrow> string list" where
  "required_fields Insert = [''project_id'', ''id_instancia'', ''table'', ''data'']"
| "required_fields BatchInsert = [''project_id'', ''id_instancia'', ''table'', ''data'']"
| "required_fields Get = [''project_id'', ''id_instancia'', ''table'']"
| "required_fields Update = [''project_id'', ''id_instancia'', ''table'', ''data'']"
| "required_fields BatchUpdate = [''project_id'', ''id_instancia'', ''table'', ''updates'']"
| "required_fields Delete = [''project_id'', ''id_instancia'', ''table'']"
| "required_fields Aggregate = [''project_id'', ''id_instancia'', ''table'', ''operation'']"



text \<open>What \<open>merge_row\<close> makes of the properties of an object row.\<close>

definition merged :: "jsval \<Rightarrow> (string \<times> jsval) list \<Rightarrow> (string \<times> jsval) list" where
  "merged v kvs = set_prop ''id_instancia'' (coalesce (field kvs ''id_instancia'') v) kvs"

text \<open>What \<open>to_columns\<close> makes of them.\<close>

definition columns_of :: "(string \<times> jsval) list \<Rightarrow> jsval" where
  "columns_of kvs = JArr (map (\<lambda>(k, x). JObj [(''name'', JStr k), (''value'', x)]) kvs)"

text \<open>Downstream behaviours: an engine that accepts, two that cannot be reached, one that refuses.\<close>

definition engine_ok :: downstream where
  "engine_ok endpoint payload = AxiosOk (JObj [(''success'', JBool True)])"


definition engine_timeout :: downstream where
  "engine_timeout endpoint payload = AxiosNoResponse ''timeout of 30000ms exceeded''"



text \<open>Gateway answers seen by the consumer: the answer to an insert, and a bare number.\<close>

definition gateway_insert_ok :: downstream where
  "gateway_insert_ok endpoint payload =
     AxiosOk (JObj [(''success'', JBool True),
                    (''message'', JStr ''Registro inserido com sucesso''),
                    (''data'', JObj [(''success'', JBool True), (''id'', JNum 5)])])"

definition gateway_scalar :: downstream where
  "gateway_scalar endpoint payload = AxiosOk (JNum 5)"


definition cliente_vazio :: "(string \<times> jsval) list" where
  "cliente_vazio = [(''project_id'', JNum 1), (''id_instancia'', JNum 10),
                    (''table'', JStr ''clientes''), (''data'', JObj [])]"

definition soma_sem_coluna :: "(string \<times> jsval) list" where
  "soma_sem_coluna = [(''project_id'', JNum 1), (''id_instancia'', JNum 10),
                      (''table'', JStr ''pedidos''), (''operation'', JStr ''SUM'')]"

definition mediana :: "(string \<times> jsval) list" where
  "mediana = [(''project_id'', JNum 1), (''id_instancia'', JNum 10),
              (''table'', JStr ''pedidos''), (''operation'', JStr ''MEDIAN''),
              (''column'', JStr ''total'')]"

definition apagar :: "(string \<times> jsval) list" where
  "apagar = [(''project_id'', JNum 1), (''id_instancia'', JNum 10), (''table'', JStr ''logs''),
             (''where'', JObj [(''id'', JNum 100)])]"

definition apagar_soft :: "(string \<times> jsval) list" where
  "apagar_soft = [(''project_id'', JNum 1), (''id_instancia'', JNum 10), (''table'', JStr ''logs''),
                  (''where'', JObj [(''id'', JNum 100)]), (''mode'', JStr ''soft'')]"

definition produtos :: "(string \<times> jsval) list list" where
  "produtos = [[(''nome'', JStr ''A'')], [(''nome'', JStr ''B''), (''id_instancia'', JNum 99)]]"

definition produtos_null :: "(string \<times> jsval) list list" where
  "produtos_null = [[(''id_instancia'', JNull), (''nome'', JStr ''C'')]]"

section \<open>Properties\<close>

subsection \<open>JavaScript values\<close>

lemma js_or_defined: "b \<noteq> JUndef \<Longrightarrow> js_or a b \<noteq> JUndef"
  by (cases a) (auto simp: js_or_def)

lemma default_param_js_or: "b \<noteq> JUndef \<Longrightarrow> default_param (js_or a b) d = js_or a b"
  by (simp add: default_param_def js_or_defined)

lemma coalesce_truthy: "truthy a \<Longrightarrow> coalesce a b = a"
  by (cases a) (auto simp: coalesce_def)

lemma own_entries_truthy: "own_entries d \<noteq> [] \<Longrightarrow> truthy d"
  by (cases d) auto

lemma field_missing_falsy:
  "map_of body f = None \<or> map_of body f = Some JNull
     \<Longrightarrow> \<not> truthy (field body f) \<and> \<not> isArray (field body f)"
  by (auto simp: field_def)

lemma set_prop_other: "k' \<noteq> k \<Longrightarrow> map_of (set_prop k v kvs) k' = map_of kvs k'"
  by (induction kvs) auto

lemma set_prop_same: "map_of (set_prop k v kvs) k = Some v"
  by (induction kvs) auto

lemma set_prop_filter:
  "filter (\<lambda>e. fst e \<noteq> k) (set_prop k v kvs) = filter (\<lambda>e. fst e \<noteq> k) kvs"
  by (induction kvs) auto

lemma set_prop_absent: "map_of kvs k = None \<Longrightarrow> set_prop k v kvs = kvs @ [(k, v)]"
  by (induction kvs) (auto split: if_splits)

lemma set_prop_unchanged: "map_of kvs k = Some v \<Longrightarrow> set_prop k v kvs = kvs"
  by (induction kvs) (auto split: if_splits)

lemma mapE_Inr: "(\<And>x. x \<in> set xs \<Longrightarrow> f x = Inr (g x)) \<Longrightarrow> mapE f xs = Inr (map g xs)"
  by (induction xs) auto

lemma join_names: "x \<in> set xs \<Longrightarrow> \<exists>pre post. join sep xs = pre @ x @ post"
proof (induction sep xs rule: join.induct)
  case (1 sep)
  then show ?case by simp
next
  case (2 sep y)
  then have "join sep [y] = [] @ x @ []" by simp
  then show ?case by blast
next
  case (3 sep y z zs)
  show ?case
  proof (cases "x = y")
    case True
    then have "join sep (y # z # zs) = [] @ x @ (sep @ join sep (z # zs))" by simp
    then show ?thesis by blast
  next
    case False
    with 3 obtain pre post where "join sep (z # zs) = pre @ x @ post" by auto
    then have "join sep (y # z # zs) = (y @ sep @ pre) @ x @ post" by simp
    then show ?thesis by blast
  qed
qed

subsection \<open>The forwarder and the handlers' two exits\<close>

lemma snd_reply: "snd (reply ok_msg err_msg r) = snd r"
  by (cases r; cases "fst r") (auto simp: reply_def)

lemma snd_requestToGo: "snd (requestToGo go ep p) = [(ep, p)]"
  by (simp add: requestToGo_def)

lemma snd_reply2: "snd (reply2 ok_msg context r) = snd r"
  by (cases r; cases "fst r") (auto simp: reply2_def)

lemma snd_requestToGo2: "snd (requestToGo2 go ep p) = [(ep, p)]"
  by (simp add: requestToGo2_def)

lemma truthy_present: "truthy (field body f) \<Longrightarrow> map_of body f \<noteq> None \<and> \<not> nullish (field body f)"
  by (cases "map_of body f"; cases "field body f") (auto simp: field_def)

lemma validateFields_pass:
  "(\<And>f. f \<in> set requiredFields \<Longrightarrow> truthy (field body f))
     \<Longrightarrow> validateFields res body requiredFields context = Inr None"
proof -
  assume t: "\<And>f. f \<in> set requiredFields \<Longrightarrow> truthy (field body f)"
  have "filter (\<lambda>f. map_of body f = None \<or> nullish (field body f)) requiredFields = []"
    using truthy_present [of body] t by (auto simp: filter_empty_conv)
  then show ?thesis by (simp add: validateFields_def)
qed

subsection \<open>Missing required fields\<close>

lemma names_3:
  "g \<in> {''project_id'', ''id_instancia'', ''table''}
     \<Longrightarrow> sublist g (''project_id, id_instancia e table '' @ rest)"
  by (auto simp: sublist_Cons_right)

lemma names_data:
  "g \<in> {''project_id'', ''id_instancia'', ''table'', ''data''}
     \<Longrightarrow> sublist g (''project_id, id_instancia, table e data '' @ rest)"
  by (auto simp: sublist_Cons_right)

lemma names_data_array:
  "g \<in> {''project_id'', ''id_instancia'', ''table'', ''data''}
     \<Longrightarrow> sublist g (''project_id, id_instancia, table e data (array) '' @ rest)"
  by (auto simp: sublist_Cons_right)

lemma names_updates:
  "g \<in> {''project_id'', ''id_instancia'', ''table'', ''updates''}
     \<Longrightarrow> sublist g (''project_id, id_instancia, table e updates (array) '' @ rest)"
  by (auto simp: sublist_Cons_right)

lemma names_operation:
  "g \<in> {''project_id'', ''id_instancia'', ''table'', ''operation''}
     \<Longrightarrow> sublist g (''project_id, id_instancia, table e operation '' @ rest)"
  by (auto simp: sublist_Cons_right)

text \<open>
  The first controller (goDataEngine.controller.js): on each of the seven operations, a
  body in which a required field is absent or \<open>null\<close> is answered 400 with
  \<open>success: false\<close>, the message names every required field of the operation, and the
  service is not called.
\<close>

lemma handler_names_required:
  assumes "f \<in> set (required_fields op)"
      and "map_of body f = None \<or> map_of body f = Some JNull"
  shows "\<exists>msg. handler op go Number body =
           (\<lparr>status = 400, json = JObj [(''success'', JBool False), (''message'', JStr msg)]\<rparr>, [])
         \<and> (\<forall>g \<in> set (required_fields op). sublist g msg)"
proof -
  note m = field_missing_falsy [OF assms(2)]
  show ?thesis
  proof (cases op)
    case Insert
    have "handler op go Number body =
            bad_request (''project_id, id_instancia, table e data '' @ sao_obrigatorios)"
      using Insert assms(1) m by (auto simp: insertRecord_def Let_def)
    then show ?thesis using Insert names_data by (simp add: bad_request_def)
  next
    case BatchInsert
    have "handler op go Number body =
            bad_request (''project_id, id_instancia, table e data (array) '' @ sao_obrigatorios)"
      using BatchInsert assms(1) m by (auto simp: batchInsert_def Let_def)
    then show ?thesis using BatchInsert names_data_array by (simp add: bad_request_def)
  next
    case Get
    have "handler op go Number body =
            bad_request (''project_id, id_instancia e table '' @ sao_obrigatorios)"
      using Get assms(1) m by (auto simp: advancedSelect_def Let_def)
    then show ?thesis using Get names_3 by (simp add: bad_request_def)
  next
    case Update
    have "handler op go Number body =
            bad_request (''project_id, id_instancia, table e data '' @ sao_obrigatorios)"
      using Update assms(1) m by (auto simp: updateRecord_def Let_def)
    then show ?thesis using Update names_data by (simp add: bad_request_def)
  next
    case BatchUpdate
    have "handler op go Number body =
            bad_request (''project_id, id_instancia, table e updates (array) '' @ sao_obrigatorios)"
      using BatchUpdate assms(1) m by (auto simp: batchUpdate_def Let_def)
    then show ?thesis using BatchUpdate names_updates by (simp add: bad_request_def)
  next
    case Delete
    have "handler op go Number body =
            bad_request (''project_id, id_instancia e table '' @ sao_obrigatorios)"
      using Delete assms(1) m by (auto simp: deleteRecord_def Let_def)
    then show ?thesis using Delete names_3 by (simp add: bad_request_def)
  next
    case Aggregate
    have "handler op go Number body =
            bad_request (''project_id, id_instancia, table e operation '' @ sao_obrigatorios)"
      using Aggregate assms(1) m by (auto simp: aggregate_def Let_def)
    then show ?thesis using Aggregate names_operation by (simp add: bad_request_def)
  qed
qed

text \<open>
  \<open>validateFields\<close> of the part_001 controller, when it is given the response object:
  the 400 it sends names every required field that is absent or \<open>null\<close>.
\<close>

lemma validateFields_names_missing:
  assumes "f \<in> set requiredFields"
      and "map_of body f = None \<or> map_of body f = Some JNull"
  shows "\<exists>msg. validateFields Res body requiredFields context =
           Inr (Some \<lparr>status = 400,
                      json = JObj [(''success'', JBool False), (''message'', JStr msg)]\<rparr>)
         \<and> sublist f msg"
proof -
  let ?missing = "filter (\<lambda>f. map_of body f = None \<or> nullish (field body f)) requiredFields"
  have mem: "f \<in> set ?missing" using assms by (auto simp: field_def)
  then have ne: "?missing \<noteq> []" by (metis empty_iff empty_set)
  from mem obtain pre post where j: "join '', '' ?missing = pre @ f @ post"
    using join_names [of f ?missing "'', ''"] by blast
  have "validateFields Res body requiredFields context =
          Inr (Some \<lparr>status = 400,
                     json = JObj [(''success'', JBool False),
                                  (''message'',
                                   JStr ((''Campos obrigat'' @ o_acute @ ''rios ausentes para ''
                                          @ context @ '': '' @ pre) @ f @ post))]\<rparr>)"
    using ne j by (simp add: validateFields_def Let_def)
  moreover have "sublist f ((''Campos obrigat'' @ o_acute @ ''rios ausentes para ''
                              @ context @ '': '' @ pre) @ f @ post)"
    unfolding sublist_def by blast
  ultimately show ?thesis by blast
qed

text \<open>
  Every handler of that controller passes the request object instead: with a required
  field absent or \<open>null\<close>, the call raises and no response is built.
\<close>

lemma validateFields_Req_raises:
  assumes "f \<in> set requiredFields"
      and "map_of body f = None \<or> map_of body f = Some JNull"
  shows "validateFields Req body requiredFields context =
           Inl (TypeError ''res.status is not a function'')"
proof -
  let ?missing = "filter (\<lambda>f. map_of body f = None \<or> nullish (field body f)) requiredFields"
  have "f \<in> set ?missing" using assms by (auto simp: field_def)
  then have "?missing \<noteq> []" by (metis empty_iff empty_set)
  then show ?thesis by (simp add: validateFields_def Let_def)
qed

text \<open>
  The seven handlers of the part_001 controller, with a required field absent or
  \<open>null\<close>: no downstream call, and no response either.
\<close>

lemma handler2_missing_field:
  assumes "f \<in> set (required_fields op)"
      and "map_of body f = None \<or> map_of body f = Some JNull"
  shows "handler2 op go Number body = (Inl (TypeError ''res.status is not a function''), [])"
proof (cases op)
  case Insert
  then show ?thesis
    using validateFields_Req_raises [OF _ assms(2), of "required_fields Insert" "''insert''"] assms(1)
    by (simp add: insertRecord2_def validated_def)
next
  case BatchInsert
  then show ?thesis
    using validateFields_Req_raises [OF _ assms(2), of "required_fields BatchInsert" "''batch insert''"]
      assms(1)
    by (simp add: batchInsert2_def validated_def)
next
  case Get
  then show ?thesis
    using validateFields_Req_raises [OF _ assms(2), of "required_fields Get"
        "''consulta avan'' @ c_cedil @ ''ada''"] assms(1)
    by (simp add: advancedSelect2_def validated_def)
next
  case Update
  then show ?thesis
    using validateFields_Req_raises [OF _ assms(2), of "required_fields Update" "''update''"] assms(1)
    by (simp add: updateRecord2_def validated_def)
next
  case BatchUpdate
  then show ?thesis
    using validateFields_Req_raises [OF _ assms(2), of "required_fields BatchUpdate" "''batch update''"]
      assms(1)
    by (simp add: batchUpdate2_def validated_def)
next
  case Delete
  then show ?thesis
    using validateFields_Req_raises [OF _ assms(2), of "required_fields Delete" "''delete''"] assms(1)
    by (simp add: deleteRecord2_def validated_def)
next
  case Aggregate
  then show ?thesis
    using validateFields_Req_raises [OF _ assms(2), of "required_fields Aggregate" "''aggregate''"]
      assms(1)
    by (simp add: aggregate2_def validated_def)
qed

text \<open>
  C1. A request that lacks a required field is to be answered 400 with \<open>success: false\<close>
  and without a downstream call. The first controller does so (\<open>handler_names_required\<close>).
  The \<open>insertRecord\<close> of the part_001 controller, on the body \<open>{"table": "clientes"}\<close>,
  calls no downstream endpoint but sends no 400 either: \<open>validateFields\<close> receives
  \<open>req\<close> where it expects \<open>res\<close>, and the handler ends with the TypeError
  (\<open>handler2_missing_field\<close> has the seven handlers).
\<close>

theorem insertRecord2_missing_field:
  "insertRecord2 engine_ok [(''table'', JStr ''clientes'')] =
     (Inl (TypeError ''res.status is not a function''), [])"
  by (simp add: insertRecord2_def validated_def validateFields_def field_def)

subsection \<open>Batch insert\<close>

lemma merge_row_obj: "merge_row v (JObj kvs) = Inr (JObj (merged v kvs))"
  by (simp add: merge_row_def merged_def)

lemma merged_absent:
  "map_of kvs ''id_instancia'' = None \<Longrightarrow> merged v kvs = kvs @ [(''id_instancia'', v)]"
  by (simp add: merged_def field_def coalesce_def set_prop_absent)

lemma merged_supplied:
  "map_of kvs ''id_instancia'' = Some x \<Longrightarrow> \<not> nullish x \<Longrightarrow> merged v kvs = kvs"
  by (simp add: merged_def field_def coalesce_def set_prop_unchanged)

lemma merged_null:
  "map_of kvs ''id_instancia'' = Some x \<Longrightarrow> nullish x
     \<Longrightarrow> map_of (merged v kvs) ''id_instancia'' = Some v"
  by (simp add: merged_def field_def coalesce_def set_prop_same)

lemma merged_frame:
  "filter (\<lambda>e. fst e \<noteq> ''id_instancia'') (merged v kvs)
     = filter (\<lambda>e. fst e \<noteq> ''id_instancia'') kvs"
  by (simp add: merged_def set_prop_filter)

lemma merged_other: "k \<noteq> ''id_instancia'' \<Longrightarrow> map_of (merged v kvs) k = map_of kvs k"
  by (simp add: merged_def set_prop_other)

lemma svc_batchInsert_objects:
  assumes "truthy p" "truthy v" "truthy t" "rs \<noteq> []"
  shows "svc_batchInsert go p v t (JArr (map JObj rs)) =
           requestToGo go ''/data/batch-insert''
             (JObj [(''project_id'', p), (''id_instancia'', v), (''table'', t),
                    (''data'', JArr (map JObj (map (merged v) rs)))])"
proof -
  have "mapE (merge_row v) (map JObj rs) =
          Inr (map (\<lambda>r. JObj (merged v (case r of JObj kvs \<Rightarrow> kvs | _ \<Rightarrow> []))) (map JObj rs))"
    by (rule mapE_Inr) (auto simp: merge_row_obj)
  then have m: "mapE (merge_row v) (map JObj rs) = Inr (map JObj (map (merged v) rs))"
    by (simp add: comp_def)
  show ?thesis
    using assms by (simp add: svc_batchInsert_def m coalesce_truthy Let_def)
qed

lemma to_columns_obj: "to_columns (JObj kvs) = Inr (columns_of kvs)"
  by (simp add: to_columns_def columns_of_def)

lemma svc2_batchInsert_objects:
  assumes "truthy p" "truthy v" "truthy t" "rs \<noteq> []"
  shows "svc2_batchInsert go p v t (JArr (map JObj rs)) =
           requestToGo2 go ''/data/batch-insert''
             (JObj [(''project_id'', p), (''id_instancia'', v), (''table'', t),
                    (''rows'', JArr (map columns_of rs))])"
proof -
  have "mapE to_columns (map JObj rs) =
          Inr (map (\<lambda>r. columns_of (case r of JObj kvs \<Rightarrow> kvs | _ \<Rightarrow> [])) (map JObj rs))"
    by (rule mapE_Inr) (auto simp: to_columns_obj)
  then have m: "mapE to_columns (map JObj rs) = Inr (map columns_of rs)"
    by (simp add: comp_def)
  obtain r rs' where rs: "rs = r # rs'" using assms(4) by (cases rs) auto
  show ?thesis
    using assms(1-3) m unfolding rs by (simp add: svc2_batchInsert_def)
qed

text \<open>
  C2, as amended. In the implementation that forwards a \<open>data\<close> array (service lines
  834-862), a batch of object rows with truthy project, instance \<open>v\<close> and table is
  forwarded row by row: a row without \<open>id_instancia\<close> is the input row with
  \<open>id_instancia: v\<close> appended, a row whose \<open>id_instancia\<close> is neither \<open>null\<close> nor
  \<open>undefined\<close> is the input row itself. The implementation that forwards \<open>rows\<close>
  (service lines 1426-1450) sends each row as the list of its \<open>{name, value}\<close> pairs and
  adds no \<open>id_instancia\<close>.
\<close>

theorem batch_insert_id_instancia:
  assumes "truthy p" "truthy v" "truthy t" "rs \<noteq> []"
  shows "(\<exists>fwd. snd (svc_batchInsert go p v t (JArr (map JObj rs))) =
                  [(''/data/batch-insert'',
                    JObj [(''project_id'', p), (''id_instancia'', v), (''table'', t),
                          (''data'', JArr (map JObj fwd))])]
              \<and> length fwd = length rs
              \<and> (\<forall>i < length rs.
                    (map_of (rs ! i) ''id_instancia'' = None
                       \<longrightarrow> fwd ! i = rs ! i @ [(''id_instancia'', v)])
                  \<and> (\<forall>x. map_of (rs ! i) ''id_instancia'' = Some x \<and> \<not> nullish x
                       \<longrightarrow> fwd ! i = rs ! i)))
         \<and> snd (svc2_batchInsert go p v t (JArr (map JObj rs))) =
             [(''/data/batch-insert'',
               JObj [(''project_id'', p), (''id_instancia'', v), (''table'', t),
                     (''rows'',
                      JArr (map (\<lambda>kvs. JArr (map (\<lambda>(k, x). JObj [(''name'', JStr k), (''value'', x)])
                                                kvs))
                              rs))])]"
proof (intro conjI exI [of _ "map (merged v) rs"])
  show "snd (svc_batchInsert go p v t (JArr (map JObj rs))) =
          [(''/data/batch-insert'',
            JObj [(''project_id'', p), (''id_instancia'', v), (''table'', t),
                  (''data'', JArr (map JObj (map (merged v) rs)))])]"
    using assms by (simp add: svc_batchInsert_objects snd_requestToGo)
  show "length (map (merged v) rs) = length rs" by simp
  show "\<forall>i < length rs.
          (map_of (rs ! i) ''id_instancia'' = None
             \<longrightarrow> map (merged v) rs ! i = rs ! i @ [(''id_instancia'', v)])
        \<and> (\<forall>x. map_of (rs ! i) ''id_instancia'' = Some x \<and> \<not> nullish x
             \<longrightarrow> map (merged v) rs ! i = rs ! i)"
    by (auto simp: merged_absent merged_supplied)
  show "snd (svc2_batchInsert go p v t (JArr (map JObj rs))) =
          [(''/data/batch-insert'',
            JObj [(''project_id'', p), (''id_instancia'', v), (''table'', t),
                  (''rows'',
                   JArr (map (\<lambda>kvs. JArr (map (\<lambda>(k, x). JObj [(''name'', JStr k), (''value'', x)])
                                             kvs))
                           rs))])]"
    using assms by (simp add: svc2_batchInsert_objects requestToGo2_def columns_of_def)
qed

text \<open>
  The example of the specification: instance 10, rows \<open>{nome: "A"}\<close> and
  \<open>{nome: "B", id_instancia: 99}\<close>.
\<close>

theorem batch_insert_id_instancia_witness:
  "truthy (JNum 1) \<and> truthy (JNum 10) \<and> truthy (JStr ''produtos'') \<and> produtos \<noteq> []
   \<and> snd (svc_batchInsert engine_ok (JNum 1) (JNum 10) (JStr ''produtos'') (JArr (map JObj produtos))) =
       [(''/data/batch-insert'',
         JObj [(''project_id'', JNum 1), (''id_instancia'', JNum 10), (''table'', JStr ''produtos''),
               (''data'', JArr [JObj [(''nome'', JStr ''A''), (''id_instancia'', JNum 10)],
                                JObj [(''nome'', JStr ''B''), (''id_instancia'', JNum 99)]])])]"
proof -
  have h: "truthy (JNum 1)" "truthy (JNum 10)" "truthy (JStr ''produtos'')" "produtos \<noteq> []"
    by (simp_all add: produtos_def)
  from batch_insert_id_instancia [OF h, of engine_ok]
  obtain fwd where
    sent: "snd (svc_batchInsert engine_ok (JNum 1) (JNum 10) (JStr ''produtos'') (JArr (map JObj produtos))) =
             [(''/data/batch-insert'',
               JObj [(''project_id'', JNum 1), (''id_instancia'', JNum 10),
                     (''table'', JStr ''produtos''), (''data'', JArr (map JObj fwd))])]"
    and len: "length fwd = length produtos"
    and rows: "\<forall>i < length produtos.
                 (map_of (produtos ! i) ''id_instancia'' = None
                    \<longrightarrow> fwd ! i = produtos ! i @ [(''id_instancia'', JNum 10)])
               \<and> (\<forall>x. map_of (produtos ! i) ''id_instancia'' = Some x \<and> \<not> nullish x
                    \<longrightarrow> fwd ! i = produtos ! i)"
    by blast
  from len obtain a b where fwd: "fwd = [a, b]"
    by (cases fwd; cases "tl fwd"; cases "tl (tl fwd)") (auto simp: produtos_def)
  from rows have "fwd ! 0 = produtos ! 0 @ [(''id_instancia'', JNum 10)]"
    by (simp add: produtos_def)
  moreover from rows have "fwd ! 1 = produtos ! 1"
    by (simp add: produtos_def)
  ultimately have "fwd = [[(''nome'', JStr ''A''), (''id_instancia'', JNum 10)],
                          [(''nome'', JStr ''B''), (''id_instancia'', JNum 99)]]"
    using fwd by (simp add: produtos_def)
  with sent h show ?thesis by simp
qed

text \<open>
  Where the claim as stated fails: the \<open>rows\<close> implementation forwards the row
  \<open>{nome: "A"}\<close> without any \<open>id_instancia\<close>; and the \<open>data\<close> implementation
  replaces an \<open>id_instancia\<close> that the row supplies as \<open>null\<close>.
\<close>

theorem batch_insert_rows_variant_no_id:
  "snd (svc2_batchInsert engine_ok (JNum 1) (JNum 10) (JStr ''produtos'')
          (JArr [JObj [(''nome'', JStr ''A'')]])) =
     [(''/data/batch-insert'',
       JObj [(''project_id'', JNum 1), (''id_instancia'', JNum 10), (''table'', JStr ''produtos''),
             (''rows'', JArr [JArr [JObj [(''name'', JStr ''nome''), (''value'', JStr ''A'')]]])])]
   \<and> snd (svc_batchInsert engine_ok (JNum 1) (JNum 10) (JStr ''produtos'')
          (JArr [JObj [(''nome'', JStr ''B''), (''id_instancia'', JNull)]])) =
     [(''/data/batch-insert'',
       JObj [(''project_id'', JNum 1), (''id_instancia'', JNum 10), (''table'', JStr ''produtos''),
             (''data'', JArr [JObj [(''nome'', JStr ''B''), (''id_instancia'', JNum 10)]])])]"
  by (simp add: svc2_batchInsert_def svc_batchInsert_def to_columns_def merge_row_def field_def
      coalesce_def requestToGo_def requestToGo2_def Let_def)

text \<open>
  C10. In \<open>batchInsert\<close> with the row merge (service lines 834-862), for a batch of object
  rows that is forwarded, every forwarded row has the input row's properties other than
  \<open>id_instancia\<close>, with their values and in their order, and no others; and a row whose
  \<open>id_instancia\<close> is \<open>null\<close> is forwarded with the request's \<open>id_instancia\<close>.
\<close>

theorem batch_insert_frame:
  assumes "truthy p" "truthy v" "truthy t" "rs \<noteq> []"
  shows "\<exists>fwd. snd (svc_batchInsert go p v t (JArr (map JObj rs))) =
                  [(''/data/batch-insert'',
                    JObj [(''project_id'', p), (''id_instancia'', v), (''table'', t),
                          (''data'', JArr (map JObj fwd))])]
              \<and> length fwd = length rs
              \<and> (\<forall>i < length rs.
                    filter (\<lambda>e. fst e \<noteq> ''id_instancia'') (fwd ! i)
                      = filter (\<lambda>e. fst e \<noteq> ''id_instancia'') (rs ! i)
                  \<and> (\<forall>k. k \<noteq> ''id_instancia'' \<longrightarrow> map_of (fwd ! i) k = map_of (rs ! i) k)
                  \<and> (map_of (rs ! i) ''id_instancia'' = Some JNull
                       \<longrightarrow> map_of (fwd ! i) ''id_instancia'' = Some v))"
proof (intro conjI exI [of _ "map (merged v) rs"])
  show "snd (svc_batchInsert go p v t (JArr (map JObj rs))) =
          [(''/data/batch-insert'',
            JObj [(''project_id'', p), (''id_instancia'', v), (''table'', t),
                  (''data'', JArr (map JObj (map (merged v) rs)))])]"
    using assms by (simp add: svc_batchInsert_objects snd_requestToGo)
  show "length (map (merged v) rs) = length rs" by simp
  show "\<forall>i < length rs.
          filter (\<lambda>e. fst e \<noteq> ''id_instancia'') (map (merged v) rs ! i)
            = filter (\<lambda>e. fst e \<noteq> ''id_instancia'') (rs ! i)
        \<and> (\<forall>k. k \<noteq> ''id_instancia'' \<longrightarrow> map_of (map (merged v) rs ! i) k = map_of (rs ! i) k)
        \<and> (map_of (rs ! i) ''id_instancia'' = Some JNull
             \<longrightarrow> map_of (map (merged v) rs ! i) ''id_instancia'' = Some v)"
    by (auto simp: merged_frame merged_other merged_null)
qed

theorem batch_insert_frame_witness:
  "truthy (JNum 1) \<and> truthy (JNum 10) \<and> truthy (JStr ''produtos'') \<and> produtos_null \<noteq> []
   \<and> (\<exists>fwd. snd (svc_batchInsert engine_ok (JNum 1) (JNum 10) (JStr ''produtos'')
                    (JArr (map JObj produtos_null))) =
               [(''/data/batch-insert'',
                 JObj [(''project_id'', JNum 1), (''id_instancia'', JNum 10),
                       (''table'', JStr ''produtos''), (''data'', JArr (map JObj fwd))])]
            \<and> length fwd = 1
            \<and> map_of (fwd ! 0) ''nome'' = Some (JStr ''C'')
            \<and> map_of (fwd ! 0) ''id_instancia'' = Some (JNum 10))"
proof -
  have h: "truthy (JNum 1)" "truthy (JNum 10)" "truthy (JStr ''produtos'')" "produtos_null \<noteq> []"
    by (simp_all add: produtos_null_def)
  from batch_insert_frame [OF h, of engine_ok]
  obtain fwd where
    sent: "snd (svc_batchInsert engine_ok (JNum 1) (JNum 10) (JStr ''produtos'')
                  (JArr (map JObj produtos_null))) =
             [(''/data/batch-insert'',
               JObj [(''project_id'', JNum 1), (''id_instancia'', JNum 10),
                     (''table'', JStr ''produtos''), (''data'', JArr (map JObj fwd))])]"
    and len: "length fwd = length produtos_null"
    and rows: "\<forall>i < length produtos_null.
                 filter (\<lambda>e. fst e \<noteq> ''id_instancia'') (fwd ! i)
                   = filter (\<lambda>e. fst e \<noteq> ''id_instancia'') (produtos_null ! i)
               \<and> (\<forall>k. k \<noteq> ''id_instancia'' \<longrightarrow> map_of (fwd ! i) k = map_of (produtos_null ! i) k)
               \<and> (map_of (produtos_null ! i) ''id_instancia'' = Some JNull
                    \<longrightarrow> map_of (fwd ! i) ''id_instancia'' = Some (JNum 10))"
    by blast
  from rows have "map_of (fwd ! 0) ''nome'' = Some (JStr ''C'')"
    and "map_of (fwd ! 0) ''id_instancia'' = Some (JNum 10)"
    by (simp_all add: produtos_null_def)
  with sent len h show ?thesis by (auto simp: produtos_null_def)
qed

subsection \<open>Delete\<close>

text \<open>
  C3. A delete request with truthy project, instance and table is forwarded to
  \<open>/data/delete\<close>; when the body has no \<open>mode\<close> the payload carries \<open>mode: "hard"\<close>,
  and when the body has \<open>mode: "soft"\<close> the payload carries \<open>mode: "soft"\<close>. The
  part_001 controller with the second service forwards the same payload.
\<close>

theorem delete_mode_default:
  assumes "truthy (field body ''project_id'')"
      and "truthy (field body ''id_instancia'')"
      and "truthy (field body ''table'')"
  shows "(map_of body ''mode'' = None \<longrightarrow>
            snd (deleteRecord go body) =
              [(''/data/delete'',
                JObj [(''project_id'', field body ''project_id''),
                      (''id_instancia'', field body ''id_instancia''),
                      (''table'', field body ''table''),
                      (''where'', js_or (field body ''where'') (JObj [])),
                      (''where_raw'', js_or (field body ''where_raw'') JNull),
                      (''mode'', JStr ''hard'')])])
       \<and> (map_of body ''mode'' = Some (JStr ''soft'') \<longrightarrow>
            snd (deleteRecord go body) =
              [(''/data/delete'',
                JObj [(''project_id'', field body ''project_id''),
                      (''id_instancia'', field body ''id_instancia''),
                      (''table'', field body ''table''),
                      (''where'', js_or (field body ''where'') (JObj [])),
                      (''where_raw'', js_or (field body ''where_raw'') JNull),
                      (''mode'', JStr ''soft'')])])
       \<and> snd (deleteRecord2 go body) = snd (deleteRecord go body)"
proof -
  have sent: "snd (deleteRecord go body) =
                [(''/data/delete'',
                  JObj [(''project_id'', field body ''project_id''),
                        (''id_instancia'', field body ''id_instancia''),
                        (''table'', field body ''table''),
                        (''where'', js_or (field body ''where'') (JObj [])),
                        (''where_raw'', js_or (field body ''where_raw'') JNull),
                        (''mode'', js_or (field body ''mode'') (JStr ''hard''))])]"
    using assms
    by (simp add: deleteRecord_def svc_deleteRecords_def Let_def snd_reply snd_requestToGo
        default_param_js_or)
  have "validateFields Req body [''project_id'', ''id_instancia'', ''table''] ''delete'' = Inr None"
    using assms by (intro validateFields_pass) auto
  then have sent2: "snd (deleteRecord2 go body) =
                [(''/data/delete'',
                  JObj [(''project_id'', field body ''project_id''),
                        (''id_instancia'', field body ''id_instancia''),
                        (''table'', field body ''table''),
                        (''where'', js_or (field body ''where'') (JObj [])),
                        (''where_raw'', js_or (field body ''where_raw'') JNull),
                        (''mode'', js_or (field body ''mode'') (JStr ''hard''))])]"
    using assms
    by (simp add: deleteRecord2_def validated_def svc2_deleteRecords_def Let_def snd_reply2
        snd_requestToGo2 default_param_js_or)
  have "map_of body ''mode'' = None \<Longrightarrow> js_or (field body ''mode'') (JStr ''hard'') = JStr ''hard''"
    by (simp add: field_def js_or_def)
  moreover have "map_of body ''mode'' = Some (JStr ''soft'')
                   \<Longrightarrow> js_or (field body ''mode'') (JStr ''hard'') = JStr ''soft''"
    by (simp add: field_def js_or_def)
  ultimately show ?thesis using sent sent2 by simp
qed

theorem delete_mode_default_witness:
  "truthy (field apagar ''project_id'') \<and> truthy (field apagar ''id_instancia'')
   \<and> truthy (field apagar ''table'') \<and> map_of apagar ''mode'' = None
   \<and> snd (deleteRecord engine_ok apagar) =
       [(''/data/delete'',
         JObj [(''project_id'', JNum 1), (''id_instancia'', JNum 10), (''table'', JStr ''logs''),
               (''where'', JObj [(''id'', JNum 100)]), (''where_raw'', JNull),
               (''mode'', JStr ''hard'')])]
   \<and> truthy (field apagar_soft ''project_id'') \<and> truthy (field apagar_soft ''id_instancia'')
   \<and> truthy (field apagar_soft ''table'') \<and> map_of apagar_soft ''mode'' = Some (JStr ''soft'')
   \<and> snd (deleteRecord engine_ok apagar_soft) =
       [(''/data/delete'',
         JObj [(''project_id'', JNum 1), (''id_instancia'', JNum 10), (''table'', JStr ''logs''),
               (''where'', JObj [(''id'', JNum 100)]), (''where_raw'', JNull),
               (''mode'', JStr ''soft'')])]"
proof -
  have h: "truthy (field apagar ''project_id'')" "truthy (field apagar ''id_instancia'')"
    "truthy (field apagar ''table'')"
    by (simp_all add: apagar_def field_def)
  have hs: "truthy (field apagar_soft ''project_id'')" "truthy (field apagar_soft ''id_instancia'')"
    "truthy (field apagar_soft ''table'')"
    by (simp_all add: apagar_soft_def field_def)
  have m: "map_of apagar ''mode'' = None" by (simp add: apagar_def)
  have ms: "map_of apagar_soft ''mode'' = Some (JStr ''soft'')" by (simp add: apagar_soft_def)
  have "snd (deleteRecord engine_ok apagar) =
          [(''/data/delete'',
            JObj [(''project_id'', field apagar ''project_id''),
                  (''id_instancia'', field apagar ''id_instancia''),
                  (''table'', field apagar ''table''),
                  (''where'', js_or (field apagar ''where'') (JObj [])),
                  (''where_raw'', js_or (field apagar ''where_raw'') JNull),
                  (''mode'', JStr ''hard'')])]"
    using delete_mode_default [OF h, of engine_ok] m by blast
  moreover have "snd (deleteRecord engine_ok apagar_soft) =
          [(''/data/delete'',
            JObj [(''project_id'', field apagar_soft ''project_id''),
                  (''id_instancia'', field apagar_soft ''id_instancia''),
                  (''table'', field apagar_soft ''table''),
                  (''where'', js_or (field apagar_soft ''where'') (JObj [])),
                  (''where_raw'', js_or (field apagar_soft ''where_raw'') JNull),
                  (''mode'', JStr ''soft'')])]"
    using delete_mode_default [OF hs, of engine_ok] ms by blast
  ultimately show ?thesis
    using h hs m ms by (simp add: apagar_def apagar_soft_def field_def js_or_def)
qed

subsection \<open>The API key\<close>

lemma js_split_nonempty: "js_split sep s \<noteq> []"
  by (induction s) (auto split: list.splits)

lemma js_split_join: "join [sep] (js_split sep s) = s"
proof (induction s)
  case Nil
  then show ?case by simp
next
  case (Cons c cs)
  then show ?case
    using js_split_nonempty [of sep cs]
    by (cases "js_split sep cs"; cases "tl (js_split sep cs)") (auto split: list.splits)
qed

lemma js_split_no_sep: "w \<in> set (js_split sep s) \<Longrightarrow> sep \<notin> set w"
  by (induction s arbitrary: w) (auto split: list.splits if_splits)

lemma validKeys_unset: "api_keys = None \<or> api_keys = Some [] \<Longrightarrow> validKeys api_keys = []"
  by (auto simp: validKeys_def)

text \<open>
  C4. On each of the seven operation paths, a request whose \<open>x-api-key\<close> header is absent,
  or is not one of the comma-separated entries of \<open>API_KEYS\<close>, is answered 401 with
  \<open>success: false\<close> and nothing is forwarded; with \<open>API_KEYS\<close> unset or empty this
  holds for every key. (\<open>js_split_join\<close> and \<open>js_split_no_sep\<close> say that the entries
  are the comma-separated pieces of the variable.)
\<close>

theorem api_key_rejected:
  assumes "route path = Some op"
      and "key = None \<or> (\<exists>k. key = Some k \<and> k \<notin> set (validKeys api_keys))
           \<or> api_keys = None \<or> api_keys = Some []"
  shows "router api_keys key go Number path body =
           (\<lparr>status = 401,
             json = JObj [(''success'', JBool False),
                          (''message'', JStr (''Chave de API inv'' @ a_acute @ ''lida ou ausente''))]\<rparr>,
            [])"
  using assms validKeys_unset [of api_keys]
  by (auto simp: router_def validateApiKey_def split: option.splits)

theorem api_key_rejected_witness:
  "route ''/delete'' = Some Delete
   \<and> ''k3'' \<notin> set (validKeys (Some ''k1,k2''))
   \<and> status (fst (router (Some ''k1,k2'') (Some ''k3'') engine_ok id ''/delete'' apagar)) = 401
   \<and> snd (router (Some ''k1,k2'') (Some ''k3'') engine_ok id ''/delete'' apagar) = []
   \<and> status (fst (router None (Some ''k1'') engine_ok id ''/delete'' apagar)) = 401
   \<and> snd (router None (Some ''k1'') engine_ok id ''/delete'' apagar) = []"
proof -
  have r: "route ''/delete'' = Some Delete" by (simp add: route_def)
  have k: "''k3'' \<notin> set (validKeys (Some ''k1,k2''))" by (simp add: validKeys_def)
  show ?thesis
    using r k api_key_rejected [OF r, of "Some ''k3''" "Some ''k1,k2''" engine_ok id apagar]
      api_key_rejected [OF r, of "Some ''k1''" None engine_ok id apagar]
    by simp
qed

subsection \<open>Failed calls\<close>

lemma insertRecord_forwards:
  assumes "truthy (field body ''project_id'')"
      and "truthy (field body ''id_instancia'')"
      and "truthy (field body ''table'')"
      and "own_entries (field body ''data'') \<noteq> []"
  shows "insertRecord go body =
           reply ''Registro inserido com sucesso'' ''Erro ao inserir registro''
             (requestToGo go ''/data/insert''
                (JObj [(''project_id'', field body ''project_id''),
                       (''id_instancia'', field body ''id_instancia''),
                       (''table'', field body ''table''),
                       (''data'', field body ''data'')]))"
  using assms own_entries_truthy [OF assms(4)]
  by (simp add: insertRecord_def svc_insert_def Let_def coalesce_truthy)

lemma insertRecord2_forwards:
  assumes "truthy (field body ''project_id'')"
      and "truthy (field body ''id_instancia'')"
      and "truthy (field body ''table'')"
      and "own_entries (field body ''data'') \<noteq> []"
  shows "insertRecord2 go body =
           reply2 ''Registro inserido com sucesso'' ''inserir registro''
             (requestToGo2 go ''/data/insert''
                (JObj [(''project_id'', field body ''project_id''),
                       (''id_instancia'', field body ''id_instancia''),
                       (''table'', field body ''table''),
                       (''columns'', JArr (map (\<lambda>(k, x). JObj [(''name'', JStr k), (''value'', x)])
                                            (own_entries (field body ''data''))))]))"
proof -
  note d = own_entries_truthy [OF assms(4)]
  have "validateFields Req body [''project_id'', ''id_instancia'', ''table'', ''data''] ''insert''
          = Inr None"
    using assms(1-3) d by (intro validateFields_pass) auto
  moreover have "\<not> nullish (field body ''data'')"
    using d by (cases "field body ''data''") auto
  ultimately show ?thesis
    using assms d by (simp add: insertRecord2_def validated_def svc2_insert_def to_columns_def)
qed

text \<open>
  Every \<open>requestToGo\<close> of the repository hands on the transport's message when no
  response was received; the first turns a response body that is an object into the text
  \<open>[object Object]\<close>.
\<close>

lemma requestToGo_no_response:
  assumes "go ep p = AxiosNoResponse m"
  shows "fst (requestToGo go ep p) = Inl (Error m)"
    and "fst (requestToGo_json stringify go ep p) = Inl (Error m)"
    and "fst (requestToGo2 go ep p) = Inl (Error m)"
  using assms by (simp_all add: requestToGo_def requestToGo_json_def requestToGo2_def js_or_def)

lemma requestToGo_object_body:
  "go ep p = AxiosHttpError (JObj kvs) m
     \<Longrightarrow> fst (requestToGo go ep p) = Inl (Error ''[object Object]'')"
  by (simp add: requestToGo_def js_or_def)




























subsection \<open>Aggregate\<close>

text \<open>
  C6, as amended. An aggregate request with truthy project, instance, table and operation
  is forwarded to \<open>/data/aggregate\<close> with the operation unchanged, whatever it is, and
  with the column as supplied, or \<open>null\<close> when it is absent or falsy, by both
  implementations. The gateway checks neither the operator nor the presence of a column.
\<close>

theorem aggregate_forwards_unchecked:
  assumes "truthy (field body ''project_id'')"
      and "truthy (field body ''id_instancia'')"
      and "truthy (field body ''table'')"
      and "truthy (field body ''operation'')"
  shows "snd (aggregate go body) =
           [(''/data/aggregate'',
             JObj [(''project_id'', field body ''project_id''),
                   (''id_instancia'', field body ''id_instancia''),
                   (''table'', field body ''table''),
                   (''operation'', field body ''operation''),
                   (''column'', js_or (field body ''column'') JNull),
                   (''where'', js_or (field body ''where'') (JObj []))])]
       \<and> snd (aggregate2 go body) = snd (aggregate go body)"
proof -
  have "validateFields Req body [''project_id'', ''id_instancia'', ''table'', ''operation'']
          ''aggregate'' = Inr None"
    using assms by (intro validateFields_pass) auto
  then show ?thesis
    using assms
    by (simp add: aggregate_def svc_aggregate_def aggregate2_def validated_def svc2_aggregate_def
        Let_def snd_reply snd_requestToGo snd_reply2 snd_requestToGo2 default_param_js_or)
qed

theorem aggregate_forwards_unchecked_witness:
  "truthy (field mediana ''project_id'') \<and> truthy (field mediana ''id_instancia'')
   \<and> truthy (field mediana ''table'') \<and> truthy (field mediana ''operation'')
   \<and> snd (aggregate engine_ok mediana) =
       [(''/data/aggregate'',
         JObj [(''project_id'', JNum 1), (''id_instancia'', JNum 10), (''table'', JStr ''pedidos''),
               (''operation'', JStr ''MEDIAN''), (''column'', JStr ''total''), (''where'', JObj [])])]"
proof -
  have h: "truthy (field mediana ''project_id'')" "truthy (field mediana ''id_instancia'')"
    "truthy (field mediana ''table'')" "truthy (field mediana ''operation'')"
    by (simp_all add: mediana_def field_def)
  show ?thesis
    using h aggregate_forwards_unchecked [OF h, of engine_ok]
    by (simp add: mediana_def field_def js_or_def)
qed

text \<open>Where the claim as stated fails: \<open>SUM\<close> without a column is forwarded, and answered 200.\<close>

theorem sum_without_column_forwarded:
  "aggregate engine_ok soma_sem_coluna =
     (\<lparr>status = 200,
       json = JObj [(''success'', JBool True),
                    (''message'', JStr (''Agrega'' @ c_cedil @ a_tilde @ ''o realizada com sucesso'')),
                    (''data'', JObj [(''success'', JBool True)])]\<rparr>,
      [(''/data/aggregate'',
        JObj [(''project_id'', JNum 1), (''id_instancia'', JNum 10), (''table'', JStr ''pedidos''),
              (''operation'', JStr ''SUM''), (''column'', JNull), (''where'', JObj [])])])"
  by (simp add: aggregate_def svc_aggregate_def soma_sem_coluna_def field_def Let_def
      default_param_def js_or_def requestToGo_def reply_def engine_ok_def)

subsection \<open>Naming the missing fields\<close>

text \<open>
  C7. A rejection for missing required fields is to name every absent or \<open>null\<close> field,
  before any transformation. \<open>validateFields\<close> builds that message
  (\<open>validateFields_names_missing\<close>), but no handler lets it send it: \<open>batchInsert\<close> of
  the part_001 controller, on a body without \<open>id_instancia\<close> and with \<open>data: null\<close>,
  ends with the TypeError of \<open>validateFields(req, ...)\<close>, where a call with the response
  object would have sent the 400 naming \<open>id_instancia\<close> and \<open>data\<close>.
\<close>

theorem validateFields_called_with_request:
  "batchInsert2 engine_ok [(''project_id'', JNum 1), (''table'', JStr ''clientes''), (''data'', JNull)] =
     (Inl (TypeError ''res.status is not a function''), [])
   \<and> validateFields Res [(''project_id'', JNum 1), (''table'', JStr ''clientes''), (''data'', JNull)]
        [''project_id'', ''id_instancia'', ''table'', ''data''] ''batch insert'' =
       Inr (Some \<lparr>status = 400,
                  json = JObj [(''success'', JBool False),
                               (''message'', JStr (''Campos obrigat'' @ o_acute
                                   @ ''rios ausentes para batch insert: id_instancia, data''))]\<rparr>)"
  by (simp add: batchInsert2_def validated_def validateFields_def field_def)

subsection \<open>Empty data\<close>

text \<open>
  C8, as amended. An insert whose \<open>data\<close> is the empty object, with truthy project,
  instance and table, is rejected with status 500, \<open>success: false\<close> and the error text
  \<open>''data '' @ nao_pode_ser_vazio\<close>, and no downstream call is made; so in both
  implementations.
\<close>

theorem empty_data_rejected_500:
  assumes "truthy (field body ''project_id'')"
      and "truthy (field body ''id_instancia'')"
      and "truthy (field body ''table'')"
      and "map_of body ''data'' = Some (JObj [])"
  shows "insertRecord go body =
           (\<lparr>status = 500,
             json = JObj [(''success'', JBool False), (''message'', JStr ''Erro ao inserir registro''),
                          (''error'', JStr (''data '' @ nao_pode_ser_vazio))]\<rparr>,
            [])
       \<and> insertRecord2 go body =
           (Inr \<lparr>status = 500,
                 json = JObj [(''success'', JBool False),
                              (''message'', JStr ''Erro ao inserir registro''),
                              (''error'', JStr (''data '' @ nao_pode_ser_vazio))]\<rparr>,
            [])"
proof -
  have d: "field body ''data'' = JObj []" using assms(4) by (simp add: field_def)
  have "validateFields Req body [''project_id'', ''id_instancia'', ''table'', ''data''] ''insert''
          = Inr None"
    using assms(1-3) d by (intro validateFields_pass) auto
  then show ?thesis
    using assms(1-3)
    by (simp add: insertRecord_def svc_insert_def Let_def d coalesce_truthy reply_def
        insertRecord2_def validated_def svc2_insert_def reply2_def handleError_def)
qed

theorem empty_data_rejected_500_witness:
  "truthy (field cliente_vazio ''project_id'') \<and> truthy (field cliente_vazio ''id_instancia'')
   \<and> truthy (field cliente_vazio ''table'') \<and> map_of cliente_vazio ''data'' = Some (JObj [])
   \<and> status (fst (insertRecord engine_timeout cliente_vazio)) = 500
   \<and> snd (insertRecord engine_timeout cliente_vazio) = []"
proof -
  have h: "truthy (field cliente_vazio ''project_id'')" "truthy (field cliente_vazio ''id_instancia'')"
    "truthy (field cliente_vazio ''table'')" "map_of cliente_vazio ''data'' = Some (JObj [])"
    by (simp_all add: cliente_vazio_def field_def)
  show ?thesis
    using h empty_data_rejected_500 [OF h, of engine_timeout] by simp
qed

text \<open>Where the claim as stated fails: the status is 500, not 400.\<close>

theorem empty_data_not_400:
  "insertRecord engine_ok cliente_vazio =
     (\<lparr>status = 500,
       json = JObj [(''success'', JBool False), (''message'', JStr ''Erro ao inserir registro''),
                    (''error'', JStr (''data '' @ nao_pode_ser_vazio))]\<rparr>,
      [])"
  by (simp add: insertRecord_def svc_insert_def Let_def field_def coalesce_def reply_def
      cliente_vazio_def)

subsection \<open>The consumer's normalisation\<close>

text \<open>
  C9. A response of unexpected shape is to be wrapped into a list. \<open>callGoEngine\<close>
  returns \<open>result.data.data\<close> before its wrapping code: on the gateway's answer to an
  insert, whose \<open>data\<close> is a single object, the consumer gets \<open>undefined\<close>; on a bare
  number the call fails with a TypeError raised in its \<open>catch\<close> block.
\<close>

theorem callGoEngine_returns_unwrapped:
  "fst (callGoEngine gateway_insert_ok (JStr ''1'') (JStr ''10'') ''insert''
          (JObj [(''table'', JStr ''profissionais''), (''data'', JObj [(''nome'', JStr ''Ana'')])]))
     = Inr JUndef
   \<and> fst (callGoEngine gateway_scalar (JStr ''1'') (JStr ''10'') ''aggregate''
          (JObj [(''table'', JStr ''profissionais''), (''operation'', JStr ''COUNT'')]))
     = Inl (TypeError (''Cannot read properties of undefined (reading ''
                        @ [CHR 0x27] @ ''1'' @ [CHR 0x27] @ '')''))"
  by (simp add: callGoEngine_def catch_callGoEngine_def gateway_insert_ok_def gateway_scalar_def
      field_def js_or_def)

end
